theory Spec2Isabelle
  imports Main "HOL-Library.Char_ord"
begin

section \<open>Tokens (tokens.go)\<close>

text \<open>
  \<^verbatim>\<open>type TokenType string\<close> with its block of constants is the closed set of token
  kinds. The kind \<^verbatim>\<open>INT\<close> is written \<open>INTEGER\<close> here, since \<open>INT\<close> is reserved
  by the term syntax of HOL; every other kind keeps its name.
\<close>

datatype TokenType =
    ILLEGAL | EOF | IDENT | INTEGER | FLOAT | STRING
  | COMMA | DOT | COLON | SEMICOLON | LPAREN | RPAREN | LBRACKET | RBRACKET | LBRACE | RBRACE
  | ASSIGN | EQ | NE | LT | LE | GT | GE
  | PLUS | MINUS | STAR | SLASH | MOD | POW | HASH | CONCAT | ELLIPSIS | LSHIFT | RSHIFT | LABEL
  | AND | OR | NOT
  | IF | THEN | ELSE | DO | ELSEIF | END | FOR | IN | WHILE | REPEAT | UNTIL | FUNCTION | RETURN
  | LOCAL | BREAK | GOTO
  | TRUE | FALSE | NIL
  | COMMENT

text \<open>The string value of each kind, as \<^verbatim>\<open>%s\<close> prints it in a diagnostic.\<close>

fun TokenType_string :: "TokenType \<Rightarrow> string" where
  "TokenType_string ILLEGAL = ''ILLEGAL''"
| "TokenType_string EOF = ''EOF''"
| "TokenType_string IDENT = ''IDENT''"
| "TokenType_string INTEGER = ''INT''"
| "TokenType_string FLOAT = ''FLOAT''"
| "TokenType_string STRING = ''STRING''"
| "TokenType_string COMMA = '',''"
| "TokenType_string DOT = ''.''"
| "TokenType_string COLON = '':''"
| "TokenType_string SEMICOLON = '';''"
| "TokenType_string LPAREN = ''(''"
| "TokenType_string RPAREN = '')''"
| "TokenType_string LBRACKET = ''[''"
| "TokenType_string RBRACKET = '']''"
| "TokenType_string LBRACE = ''{''"
| "TokenType_string RBRACE = ''}''"
| "TokenType_string ASSIGN = ''=''"
| "TokenType_string EQ = ''==''"
| "TokenType_string NE = ''~=''"
| "TokenType_string LT = ''<''"
| "TokenType_string LE = ''<=''"
| "TokenType_string GT = ''>''"
| "TokenType_string GE = ''>=''"
| "TokenType_string PLUS = ''+''"
| "TokenType_string MINUS = ''-''"
| "TokenType_string STAR = ''*''"
| "TokenType_string SLASH = ''/''"
| "TokenType_string MOD = ''%''"
| "TokenType_string POW = ''^''"
| "TokenType_string HASH = ''#''"
| "TokenType_string CONCAT = ''..''"
| "TokenType_string ELLIPSIS = ''...''"
| "TokenType_string LSHIFT = ''<<''"
| "TokenType_string RSHIFT = ''>>''"
| "TokenType_string LABEL = ''::''"
| "TokenType_string AND = ''and''"
| "TokenType_string OR = ''or''"
| "TokenType_string NOT = ''not''"
| "TokenType_string IF = ''if''"
| "TokenType_string THEN = ''then''"
| "TokenType_string ELSE = ''else''"
| "TokenType_string DO = ''do''"
| "TokenType_string ELSEIF = ''elseif''"
| "TokenType_string END = ''end''"
| "TokenType_string FOR = ''for''"
| "TokenType_string IN = ''in''"
| "TokenType_string WHILE = ''while''"
| "TokenType_string REPEAT = ''repeat''"
| "TokenType_string UNTIL = ''until''"
| "TokenType_string FUNCTION = ''function''"
| "TokenType_string RETURN = ''return''"
| "TokenType_string LOCAL = ''local''"
| "TokenType_string BREAK = ''break''"
| "TokenType_string GOTO = ''goto''"
| "TokenType_string TRUE = ''true''"
| "TokenType_string FALSE = ''false''"
| "TokenType_string NIL = ''nil''"
| "TokenType_string COMMENT = ''COMMENT''"

definition keywords_map :: "string \<rightharpoonup> TokenType" where
  "keywords_map = map_of
     [(''and'', AND), (''or'', OR), (''not'', NOT), (''if'', IF), (''then'', THEN),
      (''else'', ELSE), (''elseif'', ELSEIF), (''end'', END), (''for'', FOR), (''in'', IN),
      (''while'', WHILE), (''repeat'', REPEAT), (''until'', UNTIL), (''function'', FUNCTION),
      (''return'', RETURN), (''local'', LOCAL), (''break'', BREAK), (''goto'', GOTO),
      (''true'', TRUE), (''false'', FALSE), (''nil'', NIL), (''do'', DO)]"

record Token =
  Type :: TokenType
  Literal :: string
  Line :: int
  Column :: int

section \<open>The tokenizer (lexer.go)\<close>

text \<open>
  The input is ASCII text, one \<open>char\<close> per byte: on such text
  \<^verbatim>\<open>utf8.DecodeRuneInString\<close> returns the byte itself with size 1, \<^verbatim>\<open>unicode.IsDigit\<close>
  holds of \<^verbatim>\<open>0\<close> to \<^verbatim>\<open>9\<close> and \<^verbatim>\<open>unicode.IsLetter\<close> of the Latin letters. The rune 0
  is \<open>CHR 0x00\<close>; it is what \<^verbatim>\<open>currentChar\<close> and \<^verbatim>\<open>readChar\<close> answer at the
  end of the input.
\<close>

record Lexer =
  input :: string
  start :: int
  pos :: nat
  line :: int
  column :: int
  lineStart :: nat

definition NewLexer :: "string \<Rightarrow> Lexer" where
  "NewLexer s = \<lparr>input = s, start = 0, pos = 0, line = 1, column = 1, lineStart = 0\<rparr>"

definition isDigit :: "char \<Rightarrow> bool" where
  "isDigit ch \<longleftrightarrow> CHR ''0'' \<le> ch \<and> ch \<le> CHR ''9''"

definition isLetter :: "char \<Rightarrow> bool" where
  "isLetter ch \<longleftrightarrow> (CHR ''a'' \<le> ch \<and> ch \<le> CHR ''z'') \<or> (CHR ''A'' \<le> ch \<and> ch \<le> CHR ''Z'')"

text \<open>\<^verbatim>\<open>%d\<close> of an integer.\<close>

fun fmt_digits :: "nat \<Rightarrow> string" where
  "fmt_digits n =
     (if n < 10 then [''0123456789'' ! n]
      else fmt_digits (n div 10) @ [''0123456789'' ! (n mod 10)])"

declare fmt_digits.simps [simp del]

definition fmt_d :: "int \<Rightarrow> string" where
  "fmt_d i = (if i < 0 then CHR ''-'' # fmt_digits (nat (- i)) else fmt_digits (nat i))"

definition errorf :: "Lexer \<Rightarrow> string \<Rightarrow> string" where
  "errorf l msg = ''line '' @ fmt_d (line l) @ '', column '' @ fmt_d (column l - start l) @ '': '' @ msg"

definition currentChar :: "Lexer \<Rightarrow> char" where
  "currentChar l = (if pos l \<ge> length (input l) then CHR 0x00 else input l ! pos l)"

definition peekChar :: "Lexer \<Rightarrow> char" where
  "peekChar l = (if pos l + 1 \<ge> length (input l) then CHR 0x00 else input l ! (pos l + 1))"

definition readChar :: "Lexer \<Rightarrow> char \<times> Lexer" where
  "readChar l =
     (if pos l \<ge> length (input l) then (CHR 0x00, l)
      else
        let r = input l ! pos l;
            l = l\<lparr>pos := pos l + 1, column := column l + 1\<rparr>;
            l = (if r = CHR 0x0A then l\<lparr>line := line l + 1, column := 1, lineStart := pos l\<rparr> else l)
        in (r, l))"

text \<open>The bytes not yet read: the measure of every loop of the tokenizer.\<close>

definition remaining :: "Lexer \<Rightarrow> nat" where
  "remaining l = length (input l) - pos l"

lemma readChar_input [simp]: "input (snd (readChar l)) = input l"
  by (simp add: readChar_def Let_def)

lemma readChar_pos:
  "pos (snd (readChar l)) = (if pos l < length (input l) then pos l + 1 else pos l)"
  by (simp add: readChar_def Let_def)

lemma readChar_pos_le: "pos l \<le> pos (snd (readChar l))"
  by (simp add: readChar_pos)

lemma currentChar_nonzero: "currentChar l \<noteq> CHR 0x00 \<Longrightarrow> pos l < length (input l)"
  by (simp add: currentChar_def split: if_splits)

lemma readChar_nonzero: "fst (readChar l) \<noteq> CHR 0x00 \<Longrightarrow> pos l < length (input l)"
  by (simp add: readChar_def split: if_splits)

lemma readChar_remaining:
  "currentChar l \<noteq> CHR 0x00 \<Longrightarrow> remaining (snd (readChar l)) < remaining l"
  by (frule currentChar_nonzero) (simp add: remaining_def readChar_pos)

function skipWhitespace :: "Lexer \<Rightarrow> Lexer" where
  "skipWhitespace l =
     (let ch = currentChar l in
      if ch = CHR '' '' \<or> ch = CHR 0x09 \<or> ch = CHR 0x0D \<or> ch = CHR 0x0A
      then skipWhitespace (snd (readChar l))
      else l)"
  by pat_completeness auto
termination
  by (relation "measure remaining") (auto intro!: readChar_remaining)

declare skipWhitespace.simps [simp del]

function skipComment_loop :: "Lexer \<Rightarrow> Lexer" where
  "skipComment_loop l =
     (let ch = currentChar l in
      if ch = CHR 0x0A \<or> ch = CHR 0x00 then l
      else skipComment_loop (snd (readChar l)))"
  by pat_completeness auto
termination
  by (relation "measure remaining") (auto intro!: readChar_remaining)

declare skipComment_loop.simps [simp del]

definition skipComment :: "Lexer \<Rightarrow> Lexer" where
  "skipComment l =
     (if currentChar l = CHR ''-'' \<and> peekChar l = CHR ''-''
      then skipComment_loop (snd (readChar (snd (readChar l))))
      else l)"

text \<open>The character an escape sequence stands for (the \<^verbatim>\<open>switch\<close> of \<^verbatim>\<open>readString\<close>).\<close>

definition escape :: "char \<Rightarrow> char" where
  "escape ch =
     (if ch = CHR ''n'' then CHR 0x0A
      else if ch = CHR ''t'' then CHR 0x09
      else if ch = CHR ''r'' then CHR 0x0D
      else if ch = CHR 0x5C then CHR 0x5C
      else if ch = CHR 0x22 then CHR 0x22
      else if ch = CHR 0x27 then CHR 0x27
      else if ch = CHR ''0'' then CHR 0x00
      else ch)"

function readString_loop :: "char \<Rightarrow> string \<Rightarrow> Lexer \<Rightarrow> (TokenType \<times> string) \<times> Lexer" where
  "readString_loop quote sb l =
     (let (ch, l) = readChar l in
      if ch = CHR 0x00 then ((ILLEGAL, errorf l ''unterminated string''), l)
      else if ch = quote then ((STRING, sb), l)
      else if ch = CHR 0x5C then
        (let (ch, l) = readChar l in readString_loop quote (sb @ [escape ch]) l)
      else readString_loop quote (sb @ [ch]) l)"
  by pat_completeness auto
termination
proof (relation "measure (\<lambda>(quote, sb, l). remaining l)")
  show "wf (measure (\<lambda>(quote, sb, l). remaining l))" by simp
next
  fix quote :: char and sb :: string and l x ch l' xa ch2 l2
  assume "x = readChar l" "(ch, l') = x" "ch \<noteq> CHR 0x00" "xa = readChar l'" "(ch2, l2) = xa"
  then have "fst (readChar l) \<noteq> CHR 0x00" "l' = snd (readChar l)" "l2 = snd (readChar l')"
    by (auto dest: sym simp: prod_eq_iff)
  then show "((quote, sb @ [escape ch2], l2), quote, sb, l) \<in> measure (\<lambda>(quote, sb, l). remaining l)"
    using readChar_nonzero[of l] readChar_pos_le[of "snd (readChar l)"]
    by (simp add: remaining_def readChar_pos)
next
  fix quote :: char and sb :: string and l x ch l'
  assume "x = readChar l" "(ch, l') = x" "ch \<noteq> CHR 0x00"
  then have "fst (readChar l) \<noteq> CHR 0x00" "l' = snd (readChar l)"
    by (auto dest: sym simp: prod_eq_iff)
  then show "((quote, sb @ [ch], l'), quote, sb, l) \<in> measure (\<lambda>(quote, sb, l). remaining l)"
    using readChar_nonzero[of l] by (simp add: remaining_def readChar_pos)
qed

declare readString_loop.simps [simp del]

definition readString :: "Lexer \<Rightarrow> (TokenType \<times> string) \<times> Lexer" where
  "readString l = (let (quote, l) = readChar l in readString_loop quote [] l)"

text \<open>\<^verbatim>\<open>l.input[start:l.pos]\<close>.\<close>

definition slice :: "string \<Rightarrow> nat \<Rightarrow> nat \<Rightarrow> string" where
  "slice s i j = take (j - i) (drop i s)"

function readNumber_hex :: "Lexer \<Rightarrow> Lexer" where
  "readNumber_hex l =
     (if isDigit (currentChar l)
         \<or> (CHR ''a'' \<le> currentChar l \<and> currentChar l \<le> CHR ''f'')
         \<or> (CHR ''A'' \<le> currentChar l \<and> currentChar l \<le> CHR ''F'')
      then readNumber_hex (snd (readChar l))
      else l)"
  by pat_completeness auto
termination
  by (relation "measure remaining") (auto intro!: readChar_remaining simp: isDigit_def)

declare readNumber_hex.simps [simp del]

function readNumber_loop :: "bool \<Rightarrow> bool \<Rightarrow> Lexer \<Rightarrow> bool \<times> bool \<times> Lexer" where
  "readNumber_loop hasDot hasExp l =
     (let ch = currentChar l in
      if ch = CHR ''.'' then
        (if hasDot \<or> hasExp then (hasDot, hasExp, l)
         else readNumber_loop True hasExp (snd (readChar l)))
      else if ch = CHR ''e'' \<or> ch = CHR ''E'' then
        (if hasExp then (hasDot, hasExp, l)
         else
           let l = snd (readChar l);
               l = (if currentChar l = CHR ''+'' \<or> currentChar l = CHR ''-''
                    then snd (readChar l) else l)
           in readNumber_loop hasDot True l)
      else if isDigit ch then readNumber_loop hasDot hasExp (snd (readChar l))
      else (hasDot, hasExp, l))"
  by pat_completeness auto
termination
proof (relation "measure (\<lambda>(hasDot, hasExp, l). remaining l)", goal_cases)
  case 1
  show ?case by simp
next
  case (2 hasDot hasExp l ch)
  then show ?case by (auto intro!: readChar_remaining)
next
  case (3 hasDot hasExp l ch la lb)
  then have "remaining la < remaining l"
    by (auto intro!: readChar_remaining)
  moreover have "remaining lb \<le> remaining la"
    using 3 readChar_pos_le[of la] by (auto simp: remaining_def)
  ultimately show ?case by simp
next
  case (4 hasDot hasExp l ch)
  then show ?case by (auto intro!: readChar_remaining simp: isDigit_def)
qed

declare readNumber_loop.simps [simp del]

definition readNumber :: "Lexer \<Rightarrow> (TokenType \<times> string) \<times> Lexer" where
  "readNumber l0 =
     (let start = pos l0;
          ch = currentChar l0;
          l = (if ch = CHR ''0'' then snd (readChar l0) else l0)
      in
      if ch = CHR ''0'' \<and> (currentChar l = CHR ''x'' \<or> currentChar l = CHR ''X'') then
        (let l = readNumber_hex (snd (readChar l))
         in ((INTEGER, slice (input l) start (pos l)), l))
      else
        (let (hasDot, hasExp, l) = readNumber_loop False False l;
             numStr = slice (input l) start (pos l)
         in if hasDot \<or> hasExp then ((FLOAT, numStr), l) else ((INTEGER, numStr), l)))"

function readIdentifier_loop :: "Lexer \<Rightarrow> Lexer" where
  "readIdentifier_loop l =
     (if isLetter (currentChar l) \<or> isDigit (currentChar l) \<or> currentChar l = CHR ''_''
      then readIdentifier_loop (snd (readChar l))
      else l)"
  by pat_completeness auto
termination
  by (relation "measure remaining")
     (auto intro!: readChar_remaining simp: isDigit_def isLetter_def)

declare readIdentifier_loop.simps [simp del]

definition readIdentifier :: "Lexer \<Rightarrow> string \<times> Lexer" where
  "readIdentifier l0 =
     (let start = pos l0; l = readIdentifier_loop l0 in (slice (input l) start (pos l), l))"

text \<open>
  Skipping never moves backwards and never changes the input: what the recursion of
  \<^verbatim>\<open>NextToken\<close> and the loop of \<^verbatim>\<open>Tokens\<close> need in order to terminate.
\<close>

lemma skipWhitespace_input [simp]: "input (skipWhitespace l) = input l"
  by (induction l rule: skipWhitespace.induct) (subst skipWhitespace.simps, simp add: Let_def)

lemma skipWhitespace_pos_le: "pos l \<le> pos (skipWhitespace l)"
proof (induction l rule: skipWhitespace.induct)
  case (1 l)
  show ?case
    using 1 readChar_pos_le[of l]
    by (subst skipWhitespace.simps) (auto simp: Let_def intro: order_trans)
qed

lemma skipComment_loop_input [simp]: "input (skipComment_loop l) = input l"
  by (induction l rule: skipComment_loop.induct) (subst skipComment_loop.simps, simp add: Let_def)

lemma skipComment_loop_pos_le: "pos l \<le> pos (skipComment_loop l)"
proof (induction l rule: skipComment_loop.induct)
  case (1 l)
  show ?case
    using 1 readChar_pos_le[of l]
    by (subst skipComment_loop.simps) (auto simp: Let_def intro: order_trans)
qed

lemma skipComment_input [simp]: "input (skipComment l) = input l"
  by (simp add: skipComment_def)

lemma skipComment_pos_le: "pos l \<le> pos (skipComment l)"
  using readChar_pos_le[of l] readChar_pos_le[of "snd (readChar l)"]
    skipComment_loop_pos_le[of "snd (readChar (snd (readChar l)))"]
  by (simp add: skipComment_def)

lemma skip_prefix_pos_le: "pos l \<le> pos (skipWhitespace (skipComment (skipWhitespace l)))"
  using skipWhitespace_pos_le[of l] skipComment_pos_le[of "skipWhitespace l"]
    skipWhitespace_pos_le[of "skipComment (skipWhitespace l)"]
  by simp

text \<open>\<^verbatim>\<open>return Token{Type: t, Literal: s, Line: l.line, Column: startCol}\<close>, with the lexer as it is then.\<close>

definition emit :: "TokenType \<Rightarrow> string \<Rightarrow> int \<Rightarrow> Lexer \<Rightarrow> Token \<times> Lexer" where
  "emit t s startCol l = (\<lparr>Type = t, Literal = s, Line = line l, Column = startCol\<rparr>, l)"

function NextToken :: "Lexer \<Rightarrow> Token \<times> Lexer" where
  "NextToken l0 =
     (let l = skipWhitespace l0;
          l = skipComment l;
          l = skipWhitespace l;
          startCol = column l;
          ch = currentChar l
      in
      if ch = CHR 0x00 then emit EOF [] startCol l
      else if ch = CHR ''='' then
        (let l = snd (readChar l) in
         if currentChar l = CHR ''='' then emit EQ ''=='' startCol (snd (readChar l))
         else emit ASSIGN ''='' startCol l)
      else if ch = CHR ''+'' then emit PLUS ''+'' startCol (snd (readChar l))
      else if ch = CHR ''-'' then
        (let l = snd (readChar l) in
         if currentChar l = CHR ''-'' then NextToken (skipComment l)
         else emit MINUS ''-'' startCol l)
      else if ch = CHR ''*'' then emit STAR ''*'' startCol (snd (readChar l))
      else if ch = CHR ''/'' then emit SLASH ''/'' startCol (snd (readChar l))
      else if ch = CHR ''%'' then emit MOD ''%'' startCol (snd (readChar l))
      else if ch = CHR ''^'' then emit POW ''^'' startCol (snd (readChar l))
      else if ch = CHR ''#'' then emit HASH ''#'' startCol (snd (readChar l))
      else if ch = CHR ''('' then emit LPAREN ''('' startCol (snd (readChar l))
      else if ch = CHR '')'' then emit RPAREN '')'' startCol (snd (readChar l))
      else if ch = CHR ''{'' then emit LBRACE ''{'' startCol (snd (readChar l))
      else if ch = CHR ''}'' then emit RBRACE ''}'' startCol (snd (readChar l))
      else if ch = CHR ''['' then emit LBRACKET ''['' startCol (snd (readChar l))
      else if ch = CHR '']'' then emit RBRACKET '']'' startCol (snd (readChar l))
      else if ch = CHR '','' then emit COMMA '','' startCol (snd (readChar l))
      else if ch = CHR ''.'' then
        (let l = snd (readChar l) in
         if currentChar l = CHR ''.'' then
           (let l = snd (readChar l) in
            if currentChar l = CHR ''.'' then emit ELLIPSIS ''...'' startCol (snd (readChar l))
            else emit CONCAT ''..'' startCol l)
         else emit DOT ''.'' startCol l)
      else if ch = CHR '':'' then
        (let l = snd (readChar l) in
         if currentChar l = CHR '':'' then emit LABEL ''::'' startCol (snd (readChar l))
         else emit COLON '':'' startCol l)
      else if ch = CHR '';'' then emit SEMICOLON '';'' startCol (snd (readChar l))
      else if ch = CHR 0x22 \<or> ch = CHR 0x27 then
        (let ((typ, val), l) = readString l in emit typ val startCol l)
      else if ch = CHR ''~'' then
        (let l = snd (readChar l) in
         if currentChar l = CHR ''='' then emit NE ''~='' startCol (snd (readChar l))
         else emit ILLEGAL ''~'' startCol l)
      else if ch = CHR ''<'' then
        (let l = snd (readChar l) in
         if currentChar l = CHR ''='' then emit LE ''<='' startCol (snd (readChar l))
         else if currentChar l = CHR ''<'' then emit LSHIFT ''<<'' startCol (snd (readChar l))
         else emit LT ''<'' startCol l)
      else if ch = CHR ''>'' then
        (let l = snd (readChar l) in
         if currentChar l = CHR ''='' then emit GE ''>='' startCol (snd (readChar l))
         else if currentChar l = CHR ''>'' then emit RSHIFT ''>>'' startCol (snd (readChar l))
         else emit GT ''>'' startCol l)
      else if isDigit ch then
        (let ((typ, val), l) = readNumber l in emit typ val startCol l)
      else if isLetter ch \<or> ch = CHR ''_'' then
        (let (ident, l) = readIdentifier l in
         case keywords_map ident of
           Some typ \<Rightarrow> emit typ ident startCol l
         | None \<Rightarrow> emit IDENT ident startCol l)
      else
        (let (illegal, l) = readChar l in emit ILLEGAL [illegal] startCol l))"
  by pat_completeness auto
termination
proof (relation "measure remaining", goal_cases)
  case 1
  show ?case by simp
next
  case (2 l0 l1 l2 l3 startCol ch l4)
  then have l3: "l3 = skipWhitespace (skipComment (skipWhitespace l0))"
    and cur: "currentChar l3 \<noteq> CHR 0x00" and l4: "l4 = snd (readChar l3)"
    by simp_all
  have "pos l0 \<le> pos l3"
    unfolding l3 by (rule skip_prefix_pos_le)
  moreover have "pos l3 < length (input l3)"
    using cur by (rule currentChar_nonzero)
  moreover have "input l3 = input l0"
    unfolding l3 by simp
  moreover have "pos l3 < pos l4"
    using \<open>pos l3 < length (input l3)\<close> by (simp add: l4 readChar_pos)
  moreover have "pos l4 \<le> pos (skipComment l4)"
    by (rule skipComment_pos_le)
  moreover have "input (skipComment l4) = input l0"
    using \<open>input l3 = input l0\<close> by (simp add: l4)
  ultimately show ?case
    by (simp add: remaining_def)
qed

declare NextToken.simps [simp del]

lemma readString_loop_input [simp]: "input (snd (readString_loop q sb l)) = input l"
proof (induction q sb l rule: readString_loop.induct)
  case (1 quote sb l)
  obtain ch l1 where r1: "readChar l = (ch, l1)" by (cases "readChar l")
  obtain ch2 l2 where r2: "readChar l1 = (ch2, l2)" by (cases "readChar l1")
  have i1: "input l1 = input l" using readChar_input[of l] r1 by simp
  have i2: "input l2 = input l1" using readChar_input[of l1] r2 by simp
  show ?case
    by (subst readString_loop.simps) (use 1 r1 r2 i1 i2 in \<open>auto simp: Let_def\<close>)
qed

lemma readString_loop_pos_le: "pos l \<le> pos (snd (readString_loop q sb l))"
proof (induction q sb l rule: readString_loop.induct)
  case (1 quote sb l)
  obtain ch l1 where r1: "readChar l = (ch, l1)" by (cases "readChar l")
  obtain ch2 l2 where r2: "readChar l1 = (ch2, l2)" by (cases "readChar l1")
  have i1: "pos l \<le> pos l1" using readChar_pos_le[of l] r1 by simp
  have i2: "pos l1 \<le> pos l2" using readChar_pos_le[of l1] r2 by simp
  show ?case
    by (subst readString_loop.simps) (use 1 r1 r2 i1 i2 in \<open>auto simp: Let_def intro: order_trans\<close>)
qed

lemma readString_input [simp]: "input (snd (readString l)) = input l"
  by (simp add: readString_def split_beta)

lemma readString_pos:
  assumes "currentChar l \<noteq> CHR 0x00"
  shows "pos l < pos (snd (readString l))"
proof -
  have "pos l < pos (snd (readChar l))"
    using currentChar_nonzero[OF assms] by (simp add: readChar_pos)
  also have "\<dots> \<le> pos (snd (readString_loop (fst (readChar l)) [] (snd (readChar l))))"
    by (rule readString_loop_pos_le)
  finally show ?thesis
    by (simp add: readString_def split_beta)
qed

lemma readNumber_hex_input [simp]: "input (readNumber_hex l) = input l"
  by (induction l rule: readNumber_hex.induct) (subst readNumber_hex.simps, simp)

lemma readNumber_hex_pos_le: "pos l \<le> pos (readNumber_hex l)"
proof (induction l rule: readNumber_hex.induct)
  case (1 l)
  show ?case
    using 1 readChar_pos_le[of l]
    by (subst readNumber_hex.simps) (auto intro: order_trans)
qed

lemma readNumber_loop_input [simp]: "input (snd (snd (readNumber_loop d e l))) = input l"
proof (induction d e l rule: readNumber_loop.induct)
  case (1 hasDot hasExp l)
  show ?case
    using 1 by (subst readNumber_loop.simps) (auto simp: Let_def)
qed

lemma readNumber_loop_pos_le: "pos l \<le> pos (snd (snd (readNumber_loop d e l)))"
proof (induction d e l rule: readNumber_loop.induct)
  case (1 hasDot hasExp l)
  show ?case
    using 1 readChar_pos_le[of l] readChar_pos_le[of "snd (readChar l)"]
    by (subst readNumber_loop.simps) (auto simp: Let_def intro: order_trans)
qed


lemma readNumber_loop_pos:
  assumes dg: "isDigit (currentChar l)"
  shows "pos l < pos (snd (snd (readNumber_loop d e l)))"
proof -
  from dg have nz: "currentChar l \<noteq> CHR 0x00" and nd: "currentChar l \<noteq> CHR ''.''"
    and ne: "currentChar l \<noteq> CHR ''e''" "currentChar l \<noteq> CHR ''E''"
    by (auto simp: isDigit_def)
  have "pos l < pos (snd (readChar l))"
    using currentChar_nonzero[OF nz] by (simp add: readChar_pos)
  also have "\<dots> \<le> pos (snd (snd (readNumber_loop d e (snd (readChar l)))))"
    by (rule readNumber_loop_pos_le)
  finally show ?thesis
    using dg nd ne by (subst readNumber_loop.simps) (simp add: Let_def)
qed

lemma readNumber_input [simp]: "input (snd (readNumber l)) = input l"
  by (simp add: readNumber_def Let_def split_beta)

lemma readNumber_pos:
  assumes dg: "isDigit (currentChar l)"
  shows "pos l < pos (snd (readNumber l))"
proof (cases "currentChar l = CHR ''0''")
  case True
  then have "currentChar l \<noteq> CHR 0x00" by simp
  then have a: "pos l < pos (snd (readChar l))"
    using currentChar_nonzero[of l] by (simp add: readChar_pos)
  have b: "pos (snd (readChar l)) \<le> pos (snd (snd (readNumber_loop False False (snd (readChar l)))))"
    by (rule readNumber_loop_pos_le)
  have c: "pos (snd (readChar l)) \<le> pos (readNumber_hex (snd (readChar (snd (readChar l)))))"
    using readChar_pos_le[of "snd (readChar l)"] readNumber_hex_pos_le[of "snd (readChar (snd (readChar l)))"]
    by simp
  show ?thesis
    using True a b c by (simp add: readNumber_def Let_def split_beta)
next
  case False
  then show ?thesis
    using readNumber_loop_pos[OF dg, of False False] by (simp add: readNumber_def Let_def split_beta)
qed

lemma readIdentifier_loop_input [simp]: "input (readIdentifier_loop l) = input l"
  by (induction l rule: readIdentifier_loop.induct) (subst readIdentifier_loop.simps, simp)

lemma readIdentifier_loop_pos_le: "pos l \<le> pos (readIdentifier_loop l)"
proof (induction l rule: readIdentifier_loop.induct)
  case (1 l)
  show ?case
    using 1 readChar_pos_le[of l]
    by (subst readIdentifier_loop.simps) (auto intro: order_trans)
qed

lemma readIdentifier_input [simp]: "input (snd (readIdentifier l)) = input l"
  by (simp add: readIdentifier_def Let_def)

lemma readIdentifier_pos:
  assumes a: "isLetter (currentChar l) \<or> currentChar l = CHR ''_''"
  shows "pos l < pos (snd (readIdentifier l))"
proof -
  from a have nz: "currentChar l \<noteq> CHR 0x00"
    by (auto simp: isLetter_def)
  have "pos l < pos (snd (readChar l))"
    using currentChar_nonzero[OF nz] by (simp add: readChar_pos)
  also have "\<dots> \<le> pos (readIdentifier_loop (snd (readChar l)))"
    by (rule readIdentifier_loop_pos_le)
  finally have "pos l < pos (readIdentifier_loop (snd (readChar l)))" .
  moreover have "readIdentifier_loop l = readIdentifier_loop (snd (readChar l))"
    using a by (subst readIdentifier_loop.simps) auto
  ultimately show ?thesis
    by (simp add: readIdentifier_def Let_def)
qed

lemma emit_simps [simp]:
  "Type (fst (emit t s c l)) = t" "snd (emit t s c l) = l"
  by (simp_all add: emit_def)

lemma NextToken_progress:
  "input (snd (NextToken l0)) = input l0 \<and>
   (Type (fst (NextToken l0)) \<noteq> EOF \<longrightarrow> pos l0 < pos (snd (NextToken l0)) \<and> pos l0 < length (input l0))"
proof (induction l0 rule: NextToken.induct)
  case (1 l0)
  define l3 where "l3 = skipWhitespace (skipComment (skipWhitespace l0))"
  define l4 where "l4 = snd (readChar l3)"
  define l5 where "l5 = snd (readChar l4)"
  define l6 where "l6 = snd (readChar l5)"
  have in3: "input l3 = input l0" by (simp add: l3_def)
  have le3: "pos l0 \<le> pos l3" unfolding l3_def by (rule skip_prefix_pos_le)
  show ?case
  proof (cases "currentChar l3 = CHR 0x00")
    case True
    then show ?thesis
      by (subst (1 2 3) NextToken.simps) (simp add: Let_def l3_def[symmetric] in3)
  next
    case nz: False
    then have lt3: "pos l3 < length (input l3)" by (rule currentChar_nonzero)
    have p4: "pos l4 = pos l3 + 1" using lt3 by (simp add: l4_def readChar_pos)
    have in4: "input l4 = input l0" by (simp add: l4_def in3)
    have p5: "pos l4 \<le> pos l5" unfolding l5_def by (rule readChar_pos_le)
    have in5: "input l5 = input l0" by (simp add: l5_def in4)
    have p6: "pos l5 \<le> pos l6" unfolding l6_def by (rule readChar_pos_le)
    have in6: "input l6 = input l0" by (simp add: l6_def in5)
    have base: "pos l0 < length (input l0)" using le3 lt3 in3 by simp
    have str: "pos l3 < pos (snd (readString l3))" using nz by (rule readString_pos)
    have num: "isDigit (currentChar l3) \<Longrightarrow> pos l3 < pos (snd (readNumber l3))"
      by (rule readNumber_pos)
    have idt: "isLetter (currentChar l3) \<or> currentChar l3 = CHR ''_'' \<Longrightarrow> pos l3 < pos (snd (readIdentifier l3))"
      by (rule readIdentifier_pos)
    show ?thesis
    proof (cases "currentChar l3 = CHR ''-'' \<and> currentChar l4 = CHR ''-''")
      case True
      have eq: "NextToken l0 = NextToken (skipComment l4)"
        using True nz by (subst NextToken.simps) (simp add: Let_def l3_def[symmetric] l4_def[symmetric])
      have IH: "input (snd (NextToken (skipComment l4))) = input (skipComment l4) \<and>
        (Type (fst (NextToken (skipComment l4))) \<noteq> EOF \<longrightarrow>
           pos (skipComment l4) < pos (snd (NextToken (skipComment l4))))"
        using 1[OF refl refl refl refl refl, of l4] True nz
        by (simp add: l3_def[symmetric] l4_def[symmetric])
      have "pos l4 \<le> pos (skipComment l4)" by (rule skipComment_pos_le)
      then show ?thesis
        using IH eq in4 p4 le3 base by auto
    next
      case False
      then show ?thesis
        using nz in3 le3 p4 in4 p5 in5 p6 in6 base str num idt
        by (subst (1 2 3) NextToken.simps)
           (auto simp: Let_def split_beta l3_def[symmetric] l4_def[symmetric] l5_def[symmetric]
              l6_def[symmetric] split: option.splits)
    qed
  qed
qed

lemma NextToken_remaining:
  "Type (fst (NextToken l)) \<noteq> EOF \<Longrightarrow> remaining (snd (NextToken l)) < remaining l"
  using NextToken_progress[of l] by (auto simp: remaining_def)

function Tokens_loop :: "Token list \<Rightarrow> Lexer \<Rightarrow> Token list" where
  "Tokens_loop tokens l =
     (let (tok, l) = NextToken l;
          tokens = tokens @ [tok]
      in if Type tok = EOF then tokens else Tokens_loop tokens l)"
  by pat_completeness auto
termination
proof (relation "measure (\<lambda>(tokens, l). remaining l)", goal_cases)
  case 1
  show ?case by simp
next
  case (2 tokens l x tok l' tokens')
  then have "tok = fst (NextToken l)" "l' = snd (NextToken l)"
    by (auto simp: prod_eq_iff dest: sym)
  with 2 show ?case
    using NextToken_remaining[of l] by simp
qed

declare Tokens_loop.simps [simp del]

definition Tokens :: "Lexer \<Rightarrow> Token list" where
  "Tokens l = Tokens_loop [] l"

section \<open>The syntax tree (ast.go)\<close>

text \<open>
  Each node struct is a constructor carrying its fields in the order of the struct, with
  \<^verbatim>\<open>TokenLine\<close> last. A struct that the code also handles outside the \<^verbatim>\<open>Expression\<close>
  and \<^verbatim>\<open>Statement\<close> interfaces (\<^verbatim>\<open>*Identifier\<close>, \<^verbatim>\<open>*FunctionCall\<close>,
  \<^verbatim>\<open>*AssignmentStatement\<close>) is a type of its own, wrapped by \<open>Ident\<close>, \<open>Call\<close> and
  \<open>Assign\<close> where it is used through the interface. \<open>NilExpression\<close> is the nil
  interface value: the key of a positional table field and the step of a numeric for
  written without one. A \<^verbatim>\<open>NumberLiteral\<close> keeps the text of its token and \<^verbatim>\<open>IsInt\<close>;
  \<^verbatim>\<open>IntValue\<close> and \<^verbatim>\<open>Value\<close> are what \<^verbatim>\<open>strconv\<close> reads from that text.
  \<^verbatim>\<open>FunctionName.Table\<close> is never assigned and is left out.
\<close>

datatype Identifier = Identifier (Name: string) (IdentLine: int)

datatype FunctionName = FunctionName (Method: string) (FuncName: "Identifier option")

datatype Expression =
    Ident Identifier
  | NumberLiteral string bool int
  | StringLiteral string int
  | BooleanLiteral bool int
  | NilLiteral int
  | TableLiteral "TableField list" int
  | FunctionLiteral "Identifier list" "Statement list" int
  | BinaryExpression TokenType Expression Expression int
  | UnaryExpression TokenType Expression int
  | IndexExpression Expression Expression int
  | MemberExpression Expression string int
  | Call FunctionCall
  | ErrorNode string int
  | NilExpression
and FunctionCall = FunctionCall Expression "Expression list" string int
and TableField = TableField Expression Expression int
and AssignmentStatement = AssignmentStatement "Identifier list" "Expression list" int
and ElseIfClause = ElseIfClause Expression "Statement list" int
and Statement =
    Assign AssignmentStatement
  | LocalAssignmentStatement "Identifier list" "Expression list" int
  | FunctionCallStatement FunctionCall
  | IfStatement Expression "Statement list" "ElseIfClause list" "Statement list" int
  | WhileStatement Expression "Statement list" int
  | RepeatStatement "Statement list" Expression int
  | ForStatement AssignmentStatement Expression AssignmentStatement "Statement list" int
  | ForInStatement "Identifier list" "Expression list" "Statement list" int
  | FunctionStatement FunctionName "Identifier list" "Statement list" int
  | LocalFunctionStatement Identifier "Identifier list" "Statement list" int
  | ReturnStatement "Expression list" int
  | BreakStatement int
  | LabelStatement string int
  | GotoStatement string int
  | SemicolonStatement int

datatype Program = Program (Statements: "Statement list")

section \<open>The parser (parser.go)\<close>

text \<open>
  The parser reads \<open>tokens\<close> at the cursor \<open>tpos\<close> (the field \<^verbatim>\<open>pos\<close>) and appends
  its diagnostics to \<open>errors\<close>. \<^verbatim>\<open>NewParser\<close> is the only constructor, and the token
  list it stores is the result of \<^verbatim>\<open>Tokens\<close>, which ends with the end-of-input token:
  \<^verbatim>\<open>p.tokens[len(p.tokens)-1]\<close> is read as it stands.
\<close>

record Parser =
  tokens :: "Token list"
  tpos :: nat
  errors :: "string list"

definition NewParser :: "string \<Rightarrow> Parser" where
  "NewParser s = \<lparr>tokens = Tokens (NewLexer s), tpos = 0, errors = []\<rparr>"

definition currentToken :: "Parser \<Rightarrow> Token" where
  "currentToken p =
     (if tpos p \<ge> length (tokens p) then tokens p ! (length (tokens p) - 1)
      else tokens p ! tpos p)"

definition peekToken :: "nat \<Rightarrow> Parser \<Rightarrow> Token" where
  "peekToken offset p =
     (let pos = tpos p + offset in
      if pos \<ge> length (tokens p) then tokens p ! (length (tokens p) - 1)
      else tokens p ! pos)"

definition advance :: "Parser \<Rightarrow> Token \<times> Parser" where
  "advance p =
     (if tpos p \<ge> length (tokens p) then (tokens p ! (length (tokens p) - 1), p)
      else (tokens p ! tpos p, p\<lparr>tpos := tpos p + 1\<rparr>))"

definition expect :: "TokenType \<Rightarrow> Parser \<Rightarrow> Token \<times> Parser" where
  "expect t p =
     (if Type (currentToken p) = t then (currentToken p, snd (advance p))
      else (\<lparr>Type = t, Literal = [], Line = 0, Column = 0\<rparr>,
            p\<lparr>errors := errors p @
               [''expected '' @ TokenType_string t @ '' but got ''
                  @ TokenType_string (Type (currentToken p))
                  @ '' at line '' @ fmt_d (Line (currentToken p))]\<rparr>))"

definition check :: "TokenType \<Rightarrow> Parser \<Rightarrow> bool" where
  "check t p \<longleftrightarrow> Type (currentToken p) = t"

text \<open>\<^verbatim>\<open>strings.Join(p.errors, "\n")\<close>.\<close>

fun join :: "string list \<Rightarrow> string \<Rightarrow> string" where
  "join [] sep = []"
| "join [x] sep = x"
| "join (x # y # ys) sep = x @ sep @ join (y # ys) sep"

definition errorsAsString :: "Parser \<Rightarrow> string" where
  "errorsAsString p = join (errors p) [CHR 0x0A]"

text \<open>
  A parsing function returns its value with the parser as it has become, or fails:
  with the panic of an unchecked type assertion, or by running out of fuel. Fuel
  bounds the iterations of every loop and the depth of the recursion, so a run that
  never ends is a run that is out of fuel whatever the fuel.
\<close>

datatype error = TypeAssertionPanic | OutOfFuel

type_synonym 'a res = "error + 'a \<times> Parser"

definition bind :: "'a res \<Rightarrow> ('a \<Rightarrow> Parser \<Rightarrow> 'b res) \<Rightarrow> 'b res" where
  "bind m f = (case m of Inl e \<Rightarrow> Inl e | Inr (x, p) \<Rightarrow> f x p)"

text \<open>
  The functions below call \<^verbatim>\<open>parseExpression\<close> and \<^verbatim>\<open>parseBlock\<close> before these are
  defined: they take them as \<open>expr\<close> and \<open>block\<close>, and the recursion is closed at the
  end of the section.
\<close>

type_synonym expr_parser = "Parser \<Rightarrow> Expression res"
type_synonym block_parser = "Parser \<Rightarrow> Statement list res"

text \<open>
  The parameter loop, written out three times in the source (\<^verbatim>\<open>parseFunctionStatement\<close>,
  \<^verbatim>\<open>parseLocalFunction\<close>, \<^verbatim>\<open>parseFunctionLiteral\<close>).
\<close>

fun parseParameters_loop :: "nat \<Rightarrow> Identifier list \<Rightarrow> Parser \<Rightarrow> Identifier list res" where
  "parseParameters_loop 0 parameters p = Inl OutOfFuel"
| "parseParameters_loop (Suc n) parameters p =
     (let (parameters, p) =
        (if check IDENT p then
           (let (tok, p) = expect IDENT p
            in (parameters @ [Identifier (Literal tok) (Line (currentToken p))], p))
         else if check ELLIPSIS p then
           (parameters @ [Identifier ''...'' (Line (currentToken p))], snd (advance p))
         else (parameters, p))
      in if check COMMA p then parseParameters_loop n parameters (snd (advance p))
         else Inr (parameters, p))"

definition parseParameters :: "nat \<Rightarrow> Parser \<Rightarrow> Identifier list res" where
  "parseParameters n p =
     (if \<not> check RPAREN p then parseParameters_loop n [] p else Inr ([], p))"

fun parseExpressionList_loop :: "expr_parser \<Rightarrow> nat \<Rightarrow> Expression list \<Rightarrow> Parser \<Rightarrow> Expression list res" where
  "parseExpressionList_loop expr 0 exprs p = Inl OutOfFuel"
| "parseExpressionList_loop expr (Suc n) exprs p =
     (if check COMMA p then
        bind (expr (snd (advance p))) (\<lambda>e p. parseExpressionList_loop expr n (exprs @ [e]) p)
      else Inr (exprs, p))"

definition parseExpressionList :: "expr_parser \<Rightarrow> nat \<Rightarrow> Parser \<Rightarrow> Expression list res" where
  "parseExpressionList expr n p = bind (expr p) (\<lambda>e p. parseExpressionList_loop expr n [e] p)"

definition parseTableField :: "expr_parser \<Rightarrow> Parser \<Rightarrow> TableField res" where
  "parseTableField expr p =
     bind (expr p) (\<lambda>key p.
       if check ASSIGN p then
         bind (expr (snd (advance p))) (\<lambda>value p.
           Inr (TableField key value (Line (currentToken p)), p))
       else Inr (TableField NilExpression key (Line (currentToken p)), p))"

fun parseTableLiteral_loop :: "expr_parser \<Rightarrow> nat \<Rightarrow> TableField list \<Rightarrow> Parser \<Rightarrow> TableField list res" where
  "parseTableLiteral_loop expr 0 flds p = Inl OutOfFuel"
| "parseTableLiteral_loop expr (Suc n) flds p =
     bind (parseTableField expr p) (\<lambda>field p.
       if check RBRACE p then Inr (flds @ [field], p)
       else parseTableLiteral_loop expr n (flds @ [field]) (snd (expect COMMA p)))"

definition parseTableLiteral :: "expr_parser \<Rightarrow> nat \<Rightarrow> Parser \<Rightarrow> Expression res" where
  "parseTableLiteral expr n p =
     (let (braceToken, p) = expect LBRACE p in
      bind (if \<not> check RBRACE p then parseTableLiteral_loop expr n [] p else Inr ([], p))
        (\<lambda>flds p. Inr (TableLiteral flds (Line braceToken), snd (expect RBRACE p))))"

definition parseFunctionLiteral :: "block_parser \<Rightarrow> nat \<Rightarrow> Parser \<Rightarrow> Expression res" where
  "parseFunctionLiteral block n p =
     (let (funcToken, p) = expect FUNCTION p;
          p = snd (expect LPAREN p)
      in bind (parseParameters n p) (\<lambda>parameters p.
           bind (block (snd (expect RPAREN p))) (\<lambda>body p.
             Inr (FunctionLiteral parameters body (Line funcToken), snd (expect END p)))))"

definition parsePrimary :: "expr_parser \<Rightarrow> block_parser \<Rightarrow> nat \<Rightarrow> Parser \<Rightarrow> Expression res" where
  "parsePrimary expr block n p =
     (case Type (currentToken p) of
        IDENT \<Rightarrow>
          (let (ident, p) = expect IDENT p in Inr (Ident (Identifier (Literal ident) (Line ident)), p))
      | INTEGER \<Rightarrow>
          (let (lit, p) = advance p in Inr (NumberLiteral (Literal lit) True (Line lit), p))
      | FLOAT \<Rightarrow>
          (let (lit, p) = advance p in Inr (NumberLiteral (Literal lit) False (Line lit), p))
      | STRING \<Rightarrow>
          (let (str, p) = expect STRING p in Inr (StringLiteral (Literal str) (Line str), p))
      | TRUE \<Rightarrow>
          (let p = snd (advance p) in Inr (BooleanLiteral True (Line (currentToken p)), p))
      | FALSE \<Rightarrow>
          (let p = snd (advance p) in Inr (BooleanLiteral False (Line (currentToken p)), p))
      | NIL \<Rightarrow>
          (let p = snd (advance p) in Inr (NilLiteral (Line (currentToken p)), p))
      | LBRACE \<Rightarrow> parseTableLiteral expr n p
      | FUNCTION \<Rightarrow> parseFunctionLiteral block n p
      | LPAREN \<Rightarrow>
          bind (expr (snd (advance p))) (\<lambda>e p. Inr (e, snd (expect RPAREN p)))
      | _ \<Rightarrow>
          (let p = p\<lparr>errors := errors p @
                     [''unexpected token: '' @ TokenType_string (Type (currentToken p))
                        @ '' at line '' @ fmt_d (Line (currentToken p))]\<rparr>;
               p = snd (advance p)
           in Inr (ErrorNode ''unexpected token'' (Line (currentToken p)), p)))"

fun parsePostfix_loop :: "expr_parser \<Rightarrow> nat \<Rightarrow> Expression \<Rightarrow> Parser \<Rightarrow> Expression res" where
  "parsePostfix_loop expr 0 e p = Inl OutOfFuel"
| "parsePostfix_loop expr (Suc n) e p =
     (if check DOT p then
        (let (member, p) = expect IDENT (snd (advance p))
         in parsePostfix_loop expr n (MemberExpression e (Literal member) (Line (currentToken p))) p)
      else if check LBRACKET p then
        bind (expr (snd (advance p))) (\<lambda>index p.
          let p = snd (expect RBRACKET p)
          in parsePostfix_loop expr n (IndexExpression e index (Line (currentToken p))) p)
      else if check COLON p then
        (let (method, p) = expect IDENT (snd (advance p));
             p = snd (expect LPAREN p)
         in bind (if \<not> check RPAREN p then parseExpressionList expr n p else Inr ([], p))
              (\<lambda>args p.
                 let p = snd (expect RPAREN p)
                 in parsePostfix_loop expr n
                      (Call (FunctionCall e args (Literal method) (Line (currentToken p)))) p))
      else if check LPAREN p \<or> check STRING p \<or> check LBRACE p then
        bind (if check LPAREN p then
                (let p = snd (advance p) in
                 bind (if \<not> check RPAREN p then parseExpressionList expr n p else Inr ([], p))
                   (\<lambda>args p. Inr (args, snd (expect RPAREN p))))
              else parseExpressionList expr n p)
          (\<lambda>args p.
             parsePostfix_loop expr n (Call (FunctionCall e args [] (Line (currentToken p)))) p)
      else Inr (e, p))"

definition parsePostfix :: "expr_parser \<Rightarrow> block_parser \<Rightarrow> nat \<Rightarrow> Parser \<Rightarrow> Expression res" where
  "parsePostfix expr block n p =
     bind (parsePrimary expr block n p) (\<lambda>e p. parsePostfix_loop expr n e p)"

fun parseUnary :: "expr_parser \<Rightarrow> block_parser \<Rightarrow> nat \<Rightarrow> Parser \<Rightarrow> Expression res"
  and parsePow :: "expr_parser \<Rightarrow> block_parser \<Rightarrow> nat \<Rightarrow> Parser \<Rightarrow> Expression res"
  and parsePow_loop :: "expr_parser \<Rightarrow> block_parser \<Rightarrow> nat \<Rightarrow> Expression \<Rightarrow> Parser \<Rightarrow> Expression res"
where
  "parseUnary expr block 0 p = Inl OutOfFuel"
| "parseUnary expr block (Suc n) p =
     (if check NOT p \<or> check MINUS p \<or> check HASH p then
        (let (op, p) = advance p in
         bind (parseUnary expr block n p) (\<lambda>right p.
           Inr (UnaryExpression (Type op) right (Line op), p)))
      else parsePow expr block n p)"
| "parsePow expr block n p =
     bind (parsePostfix expr block n p) (\<lambda>left p. parsePow_loop expr block n left p)"
| "parsePow_loop expr block 0 left p = Inl OutOfFuel"
| "parsePow_loop expr block (Suc n) left p =
     (if check POW p then
        (let (op, p) = advance p in
         bind (parseUnary expr block n p) (\<lambda>right p.
           parsePow_loop expr block n (BinaryExpression (Type op) left right (Line op)) p))
      else Inr (left, p))"

fun parseMulDivMod_loop :: "expr_parser \<Rightarrow> block_parser \<Rightarrow> nat \<Rightarrow> Expression \<Rightarrow> Parser \<Rightarrow> Expression res" where
  "parseMulDivMod_loop expr block 0 left p = Inl OutOfFuel"
| "parseMulDivMod_loop expr block (Suc n) left p =
     (if check STAR p \<or> check SLASH p \<or> check MOD p then
        (let (op, p) = advance p in
         bind (parseUnary expr block n p) (\<lambda>right p.
           parseMulDivMod_loop expr block n (BinaryExpression (Type op) left right (Line op)) p))
      else Inr (left, p))"

definition parseMulDivMod :: "expr_parser \<Rightarrow> block_parser \<Rightarrow> nat \<Rightarrow> Parser \<Rightarrow> Expression res" where
  "parseMulDivMod expr block n p =
     bind (parseUnary expr block n p) (\<lambda>left p. parseMulDivMod_loop expr block n left p)"

fun parseAddSub_loop :: "expr_parser \<Rightarrow> block_parser \<Rightarrow> nat \<Rightarrow> Expression \<Rightarrow> Parser \<Rightarrow> Expression res" where
  "parseAddSub_loop expr block 0 left p = Inl OutOfFuel"
| "parseAddSub_loop expr block (Suc n) left p =
     (if check PLUS p \<or> check MINUS p then
        (let (op, p) = advance p in
         bind (parseMulDivMod expr block n p) (\<lambda>right p.
           parseAddSub_loop expr block n (BinaryExpression (Type op) left right (Line op)) p))
      else Inr (left, p))"

definition parseAddSub :: "expr_parser \<Rightarrow> block_parser \<Rightarrow> nat \<Rightarrow> Parser \<Rightarrow> Expression res" where
  "parseAddSub expr block n p =
     bind (parseMulDivMod expr block n p) (\<lambda>left p. parseAddSub_loop expr block n left p)"

fun parseBitwiseAnd_loop :: "expr_parser \<Rightarrow> block_parser \<Rightarrow> nat \<Rightarrow> Expression \<Rightarrow> Parser \<Rightarrow> Expression res" where
  "parseBitwiseAnd_loop expr block 0 left p = Inl OutOfFuel"
| "parseBitwiseAnd_loop expr block (Suc n) left p =
     (if check HASH p \<or> check AND p then
        (let (op, p) = advance p in
         bind (parseAddSub expr block n p) (\<lambda>right p.
           parseBitwiseAnd_loop expr block n (BinaryExpression (Type op) left right (Line op)) p))
      else Inr (left, p))"

definition parseBitwiseAnd :: "expr_parser \<Rightarrow> block_parser \<Rightarrow> nat \<Rightarrow> Parser \<Rightarrow> Expression res" where
  "parseBitwiseAnd expr block n p =
     bind (parseAddSub expr block n p) (\<lambda>left p. parseBitwiseAnd_loop expr block n left p)"

fun parseBitwiseXor_loop :: "expr_parser \<Rightarrow> block_parser \<Rightarrow> nat \<Rightarrow> Expression \<Rightarrow> Parser \<Rightarrow> Expression res" where
  "parseBitwiseXor_loop expr block 0 left p = Inl OutOfFuel"
| "parseBitwiseXor_loop expr block (Suc n) left p =
     (if check POW p then
        (let (op, p) = advance p in
         bind (parseBitwiseAnd expr block n p) (\<lambda>right p.
           parseBitwiseXor_loop expr block n (BinaryExpression (Type op) left right (Line op)) p))
      else Inr (left, p))"

definition parseBitwiseXor :: "expr_parser \<Rightarrow> block_parser \<Rightarrow> nat \<Rightarrow> Parser \<Rightarrow> Expression res" where
  "parseBitwiseXor expr block n p =
     bind (parseBitwiseAnd expr block n p) (\<lambda>left p. parseBitwiseXor_loop expr block n left p)"

fun parseBitwiseOr_loop :: "expr_parser \<Rightarrow> block_parser \<Rightarrow> nat \<Rightarrow> Expression \<Rightarrow> Parser \<Rightarrow> Expression res" where
  "parseBitwiseOr_loop expr block 0 left p = Inl OutOfFuel"
| "parseBitwiseOr_loop expr block (Suc n) left p =
     (if check OR p \<or> check LSHIFT p \<or> check RSHIFT p then
        (let (op, p) = advance p in
         bind (parseBitwiseXor expr block n p) (\<lambda>right p.
           parseBitwiseOr_loop expr block n (BinaryExpression (Type op) left right (Line op)) p))
      else Inr (left, p))"

definition parseBitwiseOr :: "expr_parser \<Rightarrow> block_parser \<Rightarrow> nat \<Rightarrow> Parser \<Rightarrow> Expression res" where
  "parseBitwiseOr expr block n p =
     bind (parseBitwiseXor expr block n p) (\<lambda>left p. parseBitwiseOr_loop expr block n left p)"

fun parseConcat_loop :: "expr_parser \<Rightarrow> block_parser \<Rightarrow> nat \<Rightarrow> Token list \<Rightarrow> Expression list \<Rightarrow> Parser \<Rightarrow> (Token list \<times> Expression list) res" where
  "parseConcat_loop expr block 0 ops rights p = Inl OutOfFuel"
| "parseConcat_loop expr block (Suc n) ops rights p =
     (if check CONCAT p then
        (let (op, p) = advance p in
         bind (parseBitwiseOr expr block n p) (\<lambda>right p.
           parseConcat_loop expr block n (ops @ [op]) (rights @ [right]) p))
      else Inr ((ops, rights), p))"

definition parseConcat :: "expr_parser \<Rightarrow> block_parser \<Rightarrow> nat \<Rightarrow> Parser \<Rightarrow> Expression res" where
  "parseConcat expr block n p =
     bind (parseBitwiseOr expr block n p) (\<lambda>left p.
       if check CONCAT p then
         (let (op, p) = advance p in
          bind (parseBitwiseOr expr block n p) (\<lambda>right p.
            bind (parseConcat_loop expr block n [op] [right] p) (\<lambda>(ops, rights) p.
              Inr (foldl (\<lambda>result (op, right). BinaryExpression (Type op) result right (Line op))
                     left (zip ops rights), p))))
       else Inr (left, p))"

fun parseComparison_loop :: "expr_parser \<Rightarrow> block_parser \<Rightarrow> nat \<Rightarrow> Expression \<Rightarrow> Parser \<Rightarrow> Expression res" where
  "parseComparison_loop expr block 0 left p = Inl OutOfFuel"
| "parseComparison_loop expr block (Suc n) left p =
     (if check EQ p \<or> check NE p \<or> check LT p \<or> check LE p \<or> check GT p \<or> check GE p then
        (let (op, p) = advance p in
         bind (parseConcat expr block n p) (\<lambda>right p.
           parseComparison_loop expr block n (BinaryExpression (Type op) left right (Line op)) p))
      else Inr (left, p))"

definition parseComparison :: "expr_parser \<Rightarrow> block_parser \<Rightarrow> nat \<Rightarrow> Parser \<Rightarrow> Expression res" where
  "parseComparison expr block n p =
     bind (parseConcat expr block n p) (\<lambda>left p. parseComparison_loop expr block n left p)"

fun parseAnd_loop :: "expr_parser \<Rightarrow> block_parser \<Rightarrow> nat \<Rightarrow> Expression \<Rightarrow> Parser \<Rightarrow> Expression res" where
  "parseAnd_loop expr block 0 left p = Inl OutOfFuel"
| "parseAnd_loop expr block (Suc n) left p =
     (if check AND p then
        (let (op, p) = advance p in
         bind (parseComparison expr block n p) (\<lambda>right p.
           parseAnd_loop expr block n (BinaryExpression (Type op) left right (Line op)) p))
      else Inr (left, p))"

definition parseAnd :: "expr_parser \<Rightarrow> block_parser \<Rightarrow> nat \<Rightarrow> Parser \<Rightarrow> Expression res" where
  "parseAnd expr block n p =
     bind (parseComparison expr block n p) (\<lambda>left p. parseAnd_loop expr block n left p)"

fun parseOr_loop :: "expr_parser \<Rightarrow> block_parser \<Rightarrow> nat \<Rightarrow> Expression \<Rightarrow> Parser \<Rightarrow> Expression res" where
  "parseOr_loop expr block 0 left p = Inl OutOfFuel"
| "parseOr_loop expr block (Suc n) left p =
     (if check OR p then
        (let (op, p) = advance p in
         bind (parseAnd expr block n p) (\<lambda>right p.
           parseOr_loop expr block n (BinaryExpression (Type op) left right (Line op)) p))
      else Inr (left, p))"

definition parseOr :: "expr_parser \<Rightarrow> block_parser \<Rightarrow> nat \<Rightarrow> Parser \<Rightarrow> Expression res" where
  "parseOr expr block n p =
     bind (parseAnd expr block n p) (\<lambda>left p. parseOr_loop expr block n left p)"

text \<open>The statements.\<close>

fun parseIfStatement_loop :: "expr_parser \<Rightarrow> block_parser \<Rightarrow> nat \<Rightarrow> ElseIfClause list \<Rightarrow> Parser \<Rightarrow> ElseIfClause list res" where
  "parseIfStatement_loop expr block 0 elseIfs p = Inl OutOfFuel"
| "parseIfStatement_loop expr block (Suc n) elseIfs p =
     (if check ELSEIF p then
        bind (expr (snd (advance p))) (\<lambda>elseIfCond p.
          bind (block (snd (expect THEN p))) (\<lambda>elseIfBlock p.
            parseIfStatement_loop expr block n
              (elseIfs @ [ElseIfClause elseIfCond elseIfBlock (Line (currentToken p))]) p))
      else Inr (elseIfs, p))"

definition parseIfStatement :: "expr_parser \<Rightarrow> block_parser \<Rightarrow> nat \<Rightarrow> Parser \<Rightarrow> Statement res" where
  "parseIfStatement expr block n p =
     (let (ifToken, p) = expect IF p in
      bind (expr p) (\<lambda>condition p.
        bind (block (snd (expect THEN p))) (\<lambda>thenBlock p.
          bind (parseIfStatement_loop expr block n [] p) (\<lambda>elseIfs p.
            bind (if check ELSE p then block (snd (advance p)) else Inr ([], p)) (\<lambda>elseBlock p.
              Inr (IfStatement condition thenBlock elseIfs elseBlock (Line ifToken),
                   snd (expect END p)))))))"

definition parseWhileStatement :: "expr_parser \<Rightarrow> block_parser \<Rightarrow> Parser \<Rightarrow> Statement res" where
  "parseWhileStatement expr block p =
     (let (whileToken, p) = expect WHILE p in
      bind (expr p) (\<lambda>condition p.
        bind (block (snd (expect DO p))) (\<lambda>body p.
          Inr (WhileStatement condition body (Line whileToken), snd (expect END p)))))"

definition parseRepeatStatement :: "expr_parser \<Rightarrow> block_parser \<Rightarrow> Parser \<Rightarrow> Statement res" where
  "parseRepeatStatement expr block p =
     (let (repeatToken, p) = expect REPEAT p in
      bind (block p) (\<lambda>body p.
        bind (expr (snd (expect UNTIL p))) (\<lambda>condition p.
          Inr (RepeatStatement body condition (Line repeatToken), p))))"

definition parseForStatement :: "expr_parser \<Rightarrow> block_parser \<Rightarrow> nat \<Rightarrow> Parser \<Rightarrow> Statement res" where
  "parseForStatement expr block n p =
     (let (forToken, p) = expect FOR p in
      if Type (peekToken 1 p) = ASSIGN then
        (let (nameToken, p) = expect IDENT p;
             name = Identifier (Literal nameToken) (Line forToken);
             p = snd (expect ASSIGN p)
         in bind (expr p) (\<lambda>initVal p.
              bind (expr (snd (expect COMMA p))) (\<lambda>endVal p.
                bind (if check COMMA p then
                        bind (expr (snd (advance p))) (\<lambda>step p.
                          Inr ((step, Line (currentToken p)), p))
                      else Inr ((NilExpression, 0), p))
                  (\<lambda>(step, stepTokenLine) p.
                     bind (block (snd (expect DO p))) (\<lambda>body p.
                       Inr (ForStatement (AssignmentStatement [name] [initVal] (Line forToken))
                              endVal (AssignmentStatement [name] [step] stepTokenLine)
                              body (Line forToken),
                            snd (expect END p)))))))
      else
        (let (name, p) = expect IDENT p;
             names = [Identifier (Literal name) (Line name)];
             (names, p) =
               (if check COMMA p then
                  (let (tok, p) = expect IDENT (snd (advance p))
                   in (names @ [Identifier (Literal tok) (Line (currentToken p))], p))
                else (names, p));
             p = snd (expect IN p)
         in bind (parseExpressionList expr n p) (\<lambda>values p.
              bind (block (snd (expect DO p))) (\<lambda>body p.
                Inr (ForInStatement names values body (Line forToken), snd (expect END p))))))"

definition parseFunctionName :: "Parser \<Rightarrow> FunctionName \<times> Parser" where
  "parseFunctionName p =
     (let (name, p) =
            (if check IDENT p then
               (let (tok, p) = expect IDENT p
                in (Some (Identifier (Literal tok) (Line (currentToken p))), p))
             else (None, p));
          (name, p) =
            (if check DOT p then
               (let p = snd (advance p);
                    ident = (case name of None \<Rightarrow> Identifier [] 0 | Some ident \<Rightarrow> ident);
                    (tok, p) = expect IDENT p
                in (Some (Identifier (Name ident @ ''.'' @ Literal tok) (IdentLine ident)), p))
             else (name, p));
          (method, p) =
            (if check COLON p then
               (let (tok, p) = expect IDENT (snd (advance p)) in (Literal tok, p))
             else ([], p))
      in (FunctionName method name, p))"

definition parseFunctionStatement :: "block_parser \<Rightarrow> nat \<Rightarrow> Parser \<Rightarrow> Statement res" where
  "parseFunctionStatement block n p =
     (let (funcToken, p) = expect FUNCTION p;
          (name, p) = parseFunctionName p;
          p = snd (expect LPAREN p)
      in bind (parseParameters n p) (\<lambda>parameters p.
           bind (block (snd (expect RPAREN p))) (\<lambda>body p.
             Inr (FunctionStatement name parameters body (Line funcToken), snd (expect END p)))))"

definition parseLocalFunction :: "block_parser \<Rightarrow> nat \<Rightarrow> Token \<Rightarrow> Parser \<Rightarrow> Statement res" where
  "parseLocalFunction block n localToken p =
     (let p = snd (expect FUNCTION p);
          (tok, p) = expect IDENT p;
          name = Identifier (Literal tok) (Line localToken);
          p = snd (expect LPAREN p)
      in bind (parseParameters n p) (\<lambda>parameters p.
           bind (block (snd (expect RPAREN p))) (\<lambda>body p.
             Inr (LocalFunctionStatement name parameters body (Line localToken),
                  snd (expect END p)))))"

fun parseLocalAssignment_loop :: "nat \<Rightarrow> Identifier list \<Rightarrow> Parser \<Rightarrow> Identifier list res" where
  "parseLocalAssignment_loop 0 names p = Inl OutOfFuel"
| "parseLocalAssignment_loop (Suc n) names p =
     (let (names, p) =
        (if check IDENT p then
           (let (tok, p) = expect IDENT p
            in (names @ [Identifier (Literal tok) (Line (currentToken p))], p))
         else (names, p))
      in if check COMMA p then parseLocalAssignment_loop n names (snd (advance p))
         else Inr (names, p))"

definition parseLocalAssignment :: "expr_parser \<Rightarrow> nat \<Rightarrow> Token \<Rightarrow> Parser \<Rightarrow> Statement res" where
  "parseLocalAssignment expr n localToken p =
     bind (parseLocalAssignment_loop n [] p) (\<lambda>names p.
       bind (if check ASSIGN p then parseExpressionList expr n (snd (advance p)) else Inr ([], p))
         (\<lambda>values p. Inr (LocalAssignmentStatement names values (Line localToken), p)))"

definition parseLocalStatement :: "expr_parser \<Rightarrow> block_parser \<Rightarrow> nat \<Rightarrow> Parser \<Rightarrow> Statement res" where
  "parseLocalStatement expr block n p =
     (let (localToken, p) = expect LOCAL p in
      if check FUNCTION p then parseLocalFunction block n localToken p
      else parseLocalAssignment expr n localToken p)"

definition parseReturnStatement :: "expr_parser \<Rightarrow> nat \<Rightarrow> Parser \<Rightarrow> Statement res" where
  "parseReturnStatement expr n p =
     (let (returnToken, p) = expect RETURN p in
      bind (if \<not> check END p \<and> \<not> check ELSE p \<and> \<not> check ELSEIF p \<and> \<not> check UNTIL p
               \<and> \<not> check EOF p
            then parseExpressionList expr n p else Inr ([], p))
        (\<lambda>results p.
           Inr (ReturnStatement results (Line returnToken),
                if check SEMICOLON p then snd (advance p) else p)))"

definition parseGotoStatement :: "Parser \<Rightarrow> Statement \<times> Parser" where
  "parseGotoStatement p =
     (let (gotoToken, p) = expect GOTO p;
          (name, p) = expect IDENT p
      in (GotoStatement (Literal name) (Line gotoToken), p))"

definition parseLabelStatement :: "Parser \<Rightarrow> Statement \<times> Parser" where
  "parseLabelStatement p =
     (let (labelToken, p) = expect LABEL p;
          (name, p) = expect IDENT p;
          p = snd (expect LABEL p)
      in (LabelStatement (Literal name) (Line labelToken), p))"

text \<open>
  After \<^verbatim>\<open>=\<close>, a member expression is narrowed to its object by the unchecked
  \<^verbatim>\<open>member.Object.(*Identifier)\<close>, which panics on any other object, once the value list
  is parsed; the index case uses the checked form. A left-hand side of another shape
  falls through, with \<^verbatim>\<open>=\<close> consumed.
\<close>

definition parseAssignmentOrExpression :: "expr_parser \<Rightarrow> nat \<Rightarrow> Parser \<Rightarrow> Statement res" where
  "parseAssignmentOrExpression expr n p =
     bind (expr p) (\<lambda>e p.
       let rest = (\<lambda>p. case e of
                      Call fnCall \<Rightarrow> Inr (FunctionCallStatement fnCall, p)
                    | _ \<Rightarrow> Inr (Assign (AssignmentStatement [] [e] (Line (currentToken p))), p))
       in if check ASSIGN p then
            (let p = snd (advance p) in
             case e of
               Ident ident \<Rightarrow>
                 bind (parseExpressionList expr n p) (\<lambda>values p.
                   Inr (Assign (AssignmentStatement [ident] values (Line (currentToken p))), p))
             | MemberExpression object member _ \<Rightarrow>
                 bind (parseExpressionList expr n p) (\<lambda>values p.
                   case object of
                     Ident ident \<Rightarrow>
                       Inr (Assign (AssignmentStatement [Identifier (Name ident @ ''.'' @ member) 0]
                              values (Line (currentToken p))), p)
                   | _ \<Rightarrow> Inl TypeAssertionPanic)
             | IndexExpression object index _ \<Rightarrow>
                 bind (parseExpressionList expr n p) (\<lambda>values p.
                   let nameStr = (case object of Ident ident \<Rightarrow> Name ident | _ \<Rightarrow> [])
                   in Inr (Assign (AssignmentStatement [Identifier nameStr 0]
                             values (Line (currentToken p))), p))
             | _ \<Rightarrow> rest p)
          else rest p)"

definition parseStatement :: "expr_parser \<Rightarrow> block_parser \<Rightarrow> nat \<Rightarrow> Parser \<Rightarrow> Statement res" where
  "parseStatement expr block n p =
     (case Type (currentToken p) of
        IF \<Rightarrow> parseIfStatement expr block n p
      | WHILE \<Rightarrow> parseWhileStatement expr block p
      | REPEAT \<Rightarrow> parseRepeatStatement expr block p
      | FOR \<Rightarrow> parseForStatement expr block n p
      | FUNCTION \<Rightarrow> parseFunctionStatement block n p
      | LOCAL \<Rightarrow> parseLocalStatement expr block n p
      | RETURN \<Rightarrow> parseReturnStatement expr n p
      | BREAK \<Rightarrow> (let p = snd (advance p) in Inr (BreakStatement (Line (currentToken p)), p))
      | GOTO \<Rightarrow> Inr (parseGotoStatement p)
      | LABEL \<Rightarrow> Inr (parseLabelStatement p)
      | SEMICOLON \<Rightarrow> (let p = snd (advance p) in Inr (SemicolonStatement (Line (currentToken p)), p))
      | _ \<Rightarrow> parseAssignmentOrExpression expr n p)"

fun parseBlock_loop :: "(Parser \<Rightarrow> Statement res) \<Rightarrow> nat \<Rightarrow> Statement list \<Rightarrow> Parser \<Rightarrow> Statement list res" where
  "parseBlock_loop stmt 0 statements p = Inl OutOfFuel"
| "parseBlock_loop stmt (Suc n) statements p =
     (if check END p \<or> check ELSE p \<or> check ELSEIF p \<or> check UNTIL p \<or> check EOF p
      then Inr (statements, p)
      else bind (stmt p) (\<lambda>s p. parseBlock_loop stmt n (statements @ [s]) p))"

text \<open>
  The recursion closed: with fuel \<open>Suc n\<close>, an expression or a block is parsed by the
  functions above, which parse the expressions and blocks nested in it with fuel \<open>n\<close>.
\<close>

fun parseExpression :: "nat \<Rightarrow> Parser \<Rightarrow> Expression res"
  and parseBlock :: "nat \<Rightarrow> Parser \<Rightarrow> Statement list res"
where
  "parseExpression 0 p = Inl OutOfFuel"
| "parseExpression (Suc n) p = parseOr (\<lambda>p. parseExpression n p) (\<lambda>p. parseBlock n p) n p"
| "parseBlock 0 p = Inl OutOfFuel"
| "parseBlock (Suc n) p =
     parseBlock_loop (parseStatement (\<lambda>p. parseExpression n p) (\<lambda>p. parseBlock n p) n) n [] p"

fun Parse_loop :: "nat \<Rightarrow> Statement list \<Rightarrow> Parser \<Rightarrow> Statement list res" where
  "Parse_loop 0 statements p = Inl OutOfFuel"
| "Parse_loop (Suc n) statements p =
     (if \<not> check EOF p then
        bind (parseStatement (parseExpression n) (parseBlock n) n p) (\<lambda>stmt p.
          Parse_loop n (statements @ [stmt]) p)
      else Inr (statements, p))"

text \<open>
  \<^verbatim>\<open>Parse\<close> returns the program with \<^verbatim>\<open>nil\<close> (\<open>None\<close>) or with the error made of the
  joined diagnostics.
\<close>

definition Parse :: "nat \<Rightarrow> Parser \<Rightarrow> error + Program \<times> string option" where
  "Parse n p =
     (case Parse_loop n [] p of
        Inl e \<Rightarrow> Inl e
      | Inr (statements, p) \<Rightarrow>
          if length (errors p) > 0 then Inr (Program statements, Some (errorsAsString p))
          else Inr (Program statements, None))"

section \<open>Notions used in the properties\<close>





text \<open>A token, written in one line.\<close>

definition tok :: "TokenType \<Rightarrow> string \<Rightarrow> int \<Rightarrow> int \<Rightarrow> Token" where
  "tok t s ln col = \<lparr>Type = t, Literal = s, Line = ln, Column = col\<rparr>"

text \<open>The tokens of \<^verbatim>\<open>x = {\<close>, a table constructor that the input ends in.\<close>

definition table_tokens :: "Token list" where
  "table_tokens =
     [\<lparr>Type = IDENT, Literal = ''x'', Line = 1, Column = 1\<rparr>,
      \<lparr>Type = ASSIGN, Literal = ''='', Line = 1, Column = 3\<rparr>,
      \<lparr>Type = LBRACE, Literal = ''{'', Line = 1, Column = 5\<rparr>,
      \<lparr>Type = EOF, Literal = [], Line = 1, Column = 6\<rparr>]"

section \<open>Evaluating the tokenizer and the parser\<close>

text \<open>
  A concrete input is run by rewriting with the definitions. The bound part of a
  \<open>let\<close>, of a pair pattern, and the continuation of a \<open>bind\<close> are looked at once
  the value they wait for is known.
\<close>

lemma Let_weak_cong: "a = b \<Longrightarrow> Let a f = Let b f"
  by simp

lemma Tokens_loop_step:
  "NextToken l = (tk, l') \<Longrightarrow>
     Tokens_loop acc l = (if Type tk = EOF then acc @ [tk] else Tokens_loop (acc @ [tk]) l')"
  by (subst Tokens_loop.simps) (simp add: Let_def)

lemmas lexer_defs =
  Tokens_def Tokens_loop_step NextToken.simps skipWhitespace.simps skipComment_def
  skipComment_loop.simps readString_def readString_loop.simps readNumber_def
  readNumber_hex.simps readNumber_loop.simps readIdentifier_def readIdentifier_loop.simps
  NewLexer_def currentChar_def peekChar_def readChar_def emit_def escape_def errorf_def
  isDigit_def isLetter_def keywords_map_def slice_def fmt_d_def fmt_digits.simps Let_def

lemma bind_Inl [simp]: "bind (Inl e) f = Inl e"
  by (simp add: bind_def)

lemma bind_Inr [simp]: "bind (Inr (x, p)) f = f x p"
  by (simp add: bind_def)

lemma bind_weak_cong: "m = m' \<Longrightarrow> bind m f = bind m' f"
  by simp

lemmas parser_defs =
  currentToken_def peekToken_def advance_def expect_def check_def
  parseParameters_def parseExpressionList_def parseTableField_def parseTableLiteral_def
  parseFunctionLiteral_def parsePrimary_def parsePostfix_def parseMulDivMod_def
  parseAddSub_def parseBitwiseAnd_def parseBitwiseXor_def parseBitwiseOr_def parseConcat_def
  parseComparison_def parseAnd_def parseOr_def parseIfStatement_def parseWhileStatement_def
  parseRepeatStatement_def parseForStatement_def parseFunctionName_def
  parseFunctionStatement_def parseLocalFunction_def parseLocalAssignment_def
  parseLocalStatement_def parseReturnStatement_def parseGotoStatement_def
  parseLabelStatement_def parseAssignmentOrExpression_def parseStatement_def
  Parse_def errorsAsString_def fmt_d_def fmt_digits.simps Let_def tok_def

text \<open>Fuel \<open>k + n\<close> is at least \<open>k\<close>: it unfolds \<open>k\<close> times.\<close>

lemma fuel_numeral: "numeral k + n = Suc (pred_numeral k + n)"
  by (simp add: numeral_eq_Suc)

section \<open>Properties of the tokenizer\<close>










text \<open>
  C6 (the tokenizer never emits tokens derived from whitespace or line-comment text,
  also for two or more consecutive line comments): the code does not do this. A comment
  that follows the skipped one is met in the \<^verbatim>\<open>'-'\<close> case of \<^verbatim>\<open>NextToken\<close>, which
  has read the first \<^verbatim>\<open>-\<close> before it calls \<^verbatim>\<open>skipComment\<close>; \<^verbatim>\<open>skipComment\<close> asks for
  two more \<^verbatim>\<open>-\<close> and skips nothing, and the retry emits a \<^verbatim>\<open>-\<close> token and then the
  words of the comment. On two comment lines followed by \<^verbatim>\<open>x\<close> the tokens are
  \<^verbatim>\<open>-\<close>, \<^verbatim>\<open>b\<close>, \<^verbatim>\<open>x\<close> and the end of input.
\<close>

theorem second_comment_is_tokenized:
  "Tokens (NewLexer ''-- a\<newline>-- b\<newline>x'') =
     [\<lparr>Type = MINUS, Literal = ''-'', Line = 2, Column = 2\<rparr>,
      \<lparr>Type = IDENT, Literal = ''b'', Line = 2, Column = 4\<rparr>,
      \<lparr>Type = IDENT, Literal = ''x'', Line = 3, Column = 1\<rparr>,
      \<lparr>Type = EOF, Literal = [], Line = 3, Column = 2\<rparr>]"
  by (simp add: lexer_defs cong: Let_weak_cong prod.case_cong_weak)



section \<open>Properties of the parser\<close>

subsection \<open>Precedence and associativity\<close>

lemma or_and_tokens:
  "(let ts = [tok IDENT a la ca, tok OR ''or'' lo co, tok IDENT b lb cb,
              tok AND ''and'' ln cn, tok IDENT c lc cc, tok EOF [] le ce]
    in parseExpression (5 + n) \<lparr>tokens = ts, tpos = 0, errors = es\<rparr>
       = Inr (BinaryExpression OR (Ident (Identifier a la))
                (BinaryExpression AND (Ident (Identifier b lb)) (Ident (Identifier c lc)) ln) lo,
              \<lparr>tokens = ts, tpos = 5, errors = es\<rparr>))"
  by (simp add: parser_defs fuel_numeral cong: bind_weak_cong)

lemma and_or_tokens:
  "(let ts = [tok IDENT a la ca, tok AND ''and'' ln cn, tok IDENT b lb cb,
              tok OR ''or'' lo co, tok IDENT c lc cc, tok EOF [] le ce]
    in parseExpression (5 + n) \<lparr>tokens = ts, tpos = 0, errors = es\<rparr>
       = Inr (BinaryExpression OR
                (BinaryExpression AND (Ident (Identifier a la)) (Ident (Identifier b lb)) ln)
                (Ident (Identifier c lc)) lo,
              \<lparr>tokens = ts, tpos = 5, errors = es\<rparr>))"
  by (simp add: parser_defs fuel_numeral cong: bind_weak_cong)

lemma or_and_source_tokens:
  "Tokens (NewLexer ''x = a or b and c'') =
     [\<lparr>Type = IDENT, Literal = ''x'', Line = 1, Column = 1\<rparr>,
      \<lparr>Type = ASSIGN, Literal = ''='', Line = 1, Column = 3\<rparr>,
      \<lparr>Type = IDENT, Literal = ''a'', Line = 1, Column = 5\<rparr>,
      \<lparr>Type = OR, Literal = ''or'', Line = 1, Column = 7\<rparr>,
      \<lparr>Type = IDENT, Literal = ''b'', Line = 1, Column = 10\<rparr>,
      \<lparr>Type = AND, Literal = ''and'', Line = 1, Column = 12\<rparr>,
      \<lparr>Type = IDENT, Literal = ''c'', Line = 1, Column = 16\<rparr>,
      \<lparr>Type = EOF, Literal = [], Line = 1, Column = 17\<rparr>]"
  by (simp add: lexer_defs cong: Let_weak_cong prod.case_cong_weak)

lemma or_and_source:
  "Parse (6 + n) (NewParser ''x = a or b and c'') =
     Inr (Program
            [Assign (AssignmentStatement [Identifier ''x'' 1]
               [BinaryExpression OR (Ident (Identifier ''a'' 1))
                  (BinaryExpression AND (Ident (Identifier ''b'' 1)) (Ident (Identifier ''c'' 1)) 1)
                  1] 1)],
          None)"
  unfolding NewParser_def or_and_source_tokens
  by (simp add: parser_defs fuel_numeral cong: bind_weak_cong)





lemma pow_tokens:
  "(let ts = [tok IDENT a la ca, tok POW ''^'' l1 c1, tok IDENT b lb cb,
              tok POW ''^'' l2 c2, tok IDENT c lc cc, tok EOF [] le ce]
    in parseExpression (7 + n) \<lparr>tokens = ts, tpos = 0, errors = es\<rparr>
       = Inr (BinaryExpression POW (Ident (Identifier a la))
                (BinaryExpression POW (Ident (Identifier b lb)) (Ident (Identifier c lc)) l2) l1,
              \<lparr>tokens = ts, tpos = 5, errors = es\<rparr>))"
  by (simp add: parser_defs fuel_numeral cong: bind_weak_cong)

lemma pow_source_tokens:
  "Tokens (NewLexer ''x = a^b^c'') =
     [\<lparr>Type = IDENT, Literal = ''x'', Line = 1, Column = 1\<rparr>,
      \<lparr>Type = ASSIGN, Literal = ''='', Line = 1, Column = 3\<rparr>,
      \<lparr>Type = IDENT, Literal = ''a'', Line = 1, Column = 5\<rparr>,
      \<lparr>Type = POW, Literal = ''^'', Line = 1, Column = 6\<rparr>,
      \<lparr>Type = IDENT, Literal = ''b'', Line = 1, Column = 7\<rparr>,
      \<lparr>Type = POW, Literal = ''^'', Line = 1, Column = 8\<rparr>,
      \<lparr>Type = IDENT, Literal = ''c'', Line = 1, Column = 9\<rparr>,
      \<lparr>Type = EOF, Literal = [], Line = 1, Column = 10\<rparr>]"
  by (simp add: lexer_defs cong: Let_weak_cong prod.case_cong_weak)

lemma pow_source:
  "Parse (8 + n) (NewParser ''x = a^b^c'') =
     Inr (Program
            [Assign (AssignmentStatement [Identifier ''x'' 1]
               [BinaryExpression POW (Ident (Identifier ''a'' 1))
                  (BinaryExpression POW (Ident (Identifier ''b'' 1)) (Ident (Identifier ''c'' 1)) 1)
                  1] 1)],
          None)"
  unfolding NewParser_def pow_source_tokens
  by (simp add: parser_defs fuel_numeral cong: bind_weak_cong)

text \<open>
  C10 (exponentiation is right-associative): whatever the three identifiers and
  wherever their tokens stand, \<^verbatim>\<open>a^b^c\<close> is parsed, with any fuel of 7 or more, into
  the power node of \<^verbatim>\<open>a\<close> and the power node of \<^verbatim>\<open>b\<close> and \<^verbatim>\<open>c\<close>; the source text
  \<^verbatim>\<open>x = a^b^c\<close>, tokenized and parsed, is the assignment of that node.
\<close>

theorem pow_is_right_associative:
  "(let ts = [tok IDENT a la ca, tok POW ''^'' l1 c1, tok IDENT b lb cb,
              tok POW ''^'' l2 c2, tok IDENT c lc cc, tok EOF [] le ce]
    in parseExpression (7 + n) \<lparr>tokens = ts, tpos = 0, errors = es\<rparr>
       = Inr (BinaryExpression POW (Ident (Identifier a la))
                (BinaryExpression POW (Ident (Identifier b lb)) (Ident (Identifier c lc)) l2) l1,
              \<lparr>tokens = ts, tpos = 5, errors = es\<rparr>))
   \<and> Parse (8 + n) (NewParser ''x = a^b^c'') =
       Inr (Program
              [Assign (AssignmentStatement [Identifier ''x'' 1]
                 [BinaryExpression POW (Ident (Identifier ''a'' 1))
                    (BinaryExpression POW (Ident (Identifier ''b'' 1)) (Ident (Identifier ''c'' 1)) 1)
                    1] 1)],
            None)"
  by (intro conjI pow_tokens pow_source)

subsection \<open>Diagnostics and recovery\<close>

lemma recovery_tokens:
  "Tokens (NewLexer ''x = @'') =
     [\<lparr>Type = IDENT, Literal = ''x'', Line = 1, Column = 1\<rparr>,
      \<lparr>Type = ASSIGN, Literal = ''='', Line = 1, Column = 3\<rparr>,
      \<lparr>Type = ILLEGAL, Literal = ''@'', Line = 1, Column = 5\<rparr>,
      \<lparr>Type = EOF, Literal = [], Line = 1, Column = 6\<rparr>]"
  by (simp add: lexer_defs cong: Let_weak_cong prod.case_cong_weak)

lemma recovery_loop:
  "Parse_loop (4 + n) [] (NewParser ''x = @'') =
     Inr ([Assign (AssignmentStatement [Identifier ''x'' 1] [ErrorNode ''unexpected token'' 1] 1)],
          \<lparr>tokens = Tokens (NewLexer ''x = @''), tpos = 3,
             errors = [''unexpected token: ILLEGAL at line 1'']\<rparr>)"
  unfolding NewParser_def recovery_tokens
  by (simp add: parser_defs fuel_numeral cong: bind_weak_cong)

lemma recovery_parse:
  "Parse (4 + n) (NewParser ''x = @'') =
     Inr (Program
            [Assign (AssignmentStatement [Identifier ''x'' 1] [ErrorNode ''unexpected token'' 1] 1)],
          Some ''unexpected token: ILLEGAL at line 1'')"
  by (simp add: Parse_def recovery_loop errorsAsString_def)

text \<open>
  C3 (recovery on \<^verbatim>\<open>x = @\<close>): with any fuel of 4 or more the statement loop ends with
  one diagnostic recorded and one statement, the assignment to \<^verbatim>\<open>x\<close> of the single
  value \<open>ErrorNode\<close>; \<^verbatim>\<open>Parse\<close> returns the program of that statement together with
  the error made of the diagnostic.
\<close>

theorem parse_recovers_from_illegal_token:
  "Parse_loop (4 + n) [] (NewParser ''x = @'') =
     Inr ([Assign (AssignmentStatement [Identifier ''x'' 1] [ErrorNode ''unexpected token'' 1] 1)],
          \<lparr>tokens = Tokens (NewLexer ''x = @''), tpos = 3,
             errors = [''unexpected token: ILLEGAL at line 1'']\<rparr>)
   \<and> Parse (4 + n) (NewParser ''x = @'') =
       Inr (Program
              [Assign (AssignmentStatement [Identifier ''x'' 1] [ErrorNode ''unexpected token'' 1] 1)],
            Some ''unexpected token: ILLEGAL at line 1'')"
  by (intro conjI recovery_loop recovery_parse)

lemma plain_tokens:
  "Tokens (NewLexer ''x = 1'') =
     [\<lparr>Type = IDENT, Literal = ''x'', Line = 1, Column = 1\<rparr>,
      \<lparr>Type = ASSIGN, Literal = ''='', Line = 1, Column = 3\<rparr>,
      \<lparr>Type = INTEGER, Literal = ''1'', Line = 1, Column = 5\<rparr>,
      \<lparr>Type = EOF, Literal = [], Line = 1, Column = 6\<rparr>]"
  by (simp add: lexer_defs cong: Let_weak_cong prod.case_cong_weak)

lemma plain_loop:
  "Parse_loop 4 [] (NewParser ''x = 1'') =
     Inr ([Assign (AssignmentStatement [Identifier ''x'' 1] [NumberLiteral ''1'' True 1] 1)],
          \<lparr>tokens = Tokens (NewLexer ''x = 1''), tpos = 3, errors = []\<rparr>)"
  unfolding NewParser_def plain_tokens
  by (simp add: parser_defs eval_nat_numeral cong: bind_weak_cong)

lemma if_tokens:
  "Tokens (NewLexer ''if x'') =
     [\<lparr>Type = IF, Literal = ''if'', Line = 1, Column = 1\<rparr>,
      \<lparr>Type = IDENT, Literal = ''x'', Line = 1, Column = 4\<rparr>,
      \<lparr>Type = EOF, Literal = [], Line = 1, Column = 5\<rparr>]"
  by (simp add: lexer_defs cong: Let_weak_cong prod.case_cong_weak)

lemma if_loop:
  "Parse_loop (4 + n) [] (NewParser ''if x'') =
     Inr ([IfStatement (Ident (Identifier ''x'' 1)) [] [] [] 1],
          \<lparr>tokens = Tokens (NewLexer ''if x''), tpos = 2,
             errors = [''expected then but got EOF at line 1'',
                       ''expected end but got EOF at line 1'']\<rparr>)"
  unfolding NewParser_def if_tokens
  by (simp add: parser_defs fuel_numeral cong: bind_weak_cong)

text \<open>\<^verbatim>\<open>strings.Join\<close> puts the separator before every element but the first.\<close>

lemma join_Cons: "join (e # es) sep = e @ concat (map (\<lambda>m. sep @ m) es)"
  by (induction es arbitrary: e) simp_all

text \<open>
  C8 (\<^verbatim>\<open>Parse\<close> reports failure if and only if the diagnostic list is not empty, and
  returns the program in both cases): \<^verbatim>\<open>Parse\<close> returns exactly when its statement
  loop does; the program is then the list of statements the loop has built, the
  error is absent exactly when the parser has recorded no diagnostic, and otherwise
  it is the first diagnostic followed by each further one after a newline.
\<close>

theorem parse_fails_iff_diagnostics:
  "Parse n p = Inr (prog, err) \<longleftrightarrow>
     (\<exists>statements p'. Parse_loop n [] p = Inr (statements, p')
        \<and> prog = Program statements
        \<and> (err = None \<longleftrightarrow> errors p' = [])
        \<and> (\<forall>e es. errors p' = e # es \<longrightarrow>
               err = Some (e @ concat (map (\<lambda>m. CHR 0x0A # m) es))))"
proof (cases "Parse_loop n [] p")
  case (Inl e)
  then show ?thesis by (simp add: Parse_def)
next
  case (Inr r)
  obtain statements p' where r: "r = (statements, p')" by (cases r)
  show ?thesis
  proof (cases "errors p'")
    case Nil
    with Inr r show ?thesis by (auto simp: Parse_def)
  next
    case (Cons e es)
    with Inr r show ?thesis by (auto simp: Parse_def errorsAsString_def join_Cons)
  qed
qed

theorem parse_fails_iff_diagnostics_witness:
  "Parse 4 (NewParser ''if x'') =
     Inr (Program [IfStatement (Ident (Identifier ''x'' 1)) [] [] [] 1],
          Some ''expected then but got EOF at line 1\<newline>expected end but got EOF at line 1'')
   \<and> Parse 4 (NewParser ''x = @'') =
       Inr (Program [Assign (AssignmentStatement [Identifier ''x'' 1]
                       [ErrorNode ''unexpected token'' 1] 1)],
            Some ''unexpected token: ILLEGAL at line 1'')
   \<and> Parse 4 (NewParser ''x = 1'') =
       Inr (Program [Assign (AssignmentStatement [Identifier ''x'' 1]
                       [NumberLiteral ''1'' True 1] 1)],
            None)"
proof (intro conjI)
  show "Parse 4 (NewParser ''if x'') =
     Inr (Program [IfStatement (Ident (Identifier ''x'' 1)) [] [] [] 1],
          Some ''expected then but got EOF at line 1\<newline>expected end but got EOF at line 1'')"
    by (rule parse_fails_iff_diagnostics[THEN iffD2])
       (use if_loop[of 0] in \<open>simp\<close>)
  show "Parse 4 (NewParser ''x = @'') =
       Inr (Program [Assign (AssignmentStatement [Identifier ''x'' 1]
                       [ErrorNode ''unexpected token'' 1] 1)],
            Some ''unexpected token: ILLEGAL at line 1'')"
    by (rule parse_fails_iff_diagnostics[THEN iffD2])
       (use recovery_loop[of 0] in \<open>simp\<close>)
  show "Parse 4 (NewParser ''x = 1'') =
       Inr (Program [Assign (AssignmentStatement [Identifier ''x'' 1]
                       [NumberLiteral ''1'' True 1] 1)],
            None)"
    by (rule parse_fails_iff_diagnostics[THEN iffD2])
       (use plain_loop in \<open>simp\<close>)
qed

subsection \<open>Where the code departs from its specification\<close>

lemma multi_target_tokens:
  "Tokens (NewLexer ''a, b = 1, 2'') =
     [\<lparr>Type = IDENT, Literal = ''a'', Line = 1, Column = 1\<rparr>,
      \<lparr>Type = COMMA, Literal = '','', Line = 1, Column = 2\<rparr>,
      \<lparr>Type = IDENT, Literal = ''b'', Line = 1, Column = 4\<rparr>,
      \<lparr>Type = ASSIGN, Literal = ''='', Line = 1, Column = 6\<rparr>,
      \<lparr>Type = INTEGER, Literal = ''1'', Line = 1, Column = 8\<rparr>,
      \<lparr>Type = COMMA, Literal = '','', Line = 1, Column = 9\<rparr>,
      \<lparr>Type = INTEGER, Literal = ''2'', Line = 1, Column = 11\<rparr>,
      \<lparr>Type = EOF, Literal = [], Line = 1, Column = 12\<rparr>]"
  by (simp add: lexer_defs cong: Let_weak_cong prod.case_cong_weak)

text \<open>
  C4 (a multi-target assignment parses into a single assignment node): the code does
  not do this. \<^verbatim>\<open>parseAssignmentOrExpression\<close> parses one expression and looks for
  \<^verbatim>\<open>=\<close>; it has no loop over targets, as \<^verbatim>\<open>parseLocalAssignment\<close> has. On
  \<^verbatim>\<open>a, b = 1, 2\<close> the program has three statements (the value \<^verbatim>\<open>a\<close>, an error node
  for the comma, the assignment of \<^verbatim>\<open>1, 2\<close> to \<^verbatim>\<open>b\<close> alone) and a diagnostic.
\<close>

theorem multi_target_assignment_is_split:
  "Parse (6 + n) (NewParser ''a, b = 1, 2'') =
     Inr (Program
            [Assign (AssignmentStatement [] [Ident (Identifier ''a'' 1)] 1),
             Assign (AssignmentStatement [] [ErrorNode ''unexpected token'' 1] 1),
             Assign (AssignmentStatement [Identifier ''b'' 1]
               [NumberLiteral ''1'' True 1, NumberLiteral ''2'' True 1] 1)],
          Some ''unexpected token: , at line 1'')"
  unfolding NewParser_def multi_target_tokens
  by (simp add: parser_defs fuel_numeral cong: bind_weak_cong)

lemma member_chain_tokens:
  "Tokens (NewLexer ''a.b.c = 1'') =
     [\<lparr>Type = IDENT, Literal = ''a'', Line = 1, Column = 1\<rparr>,
      \<lparr>Type = DOT, Literal = ''.'', Line = 1, Column = 2\<rparr>,
      \<lparr>Type = IDENT, Literal = ''b'', Line = 1, Column = 3\<rparr>,
      \<lparr>Type = DOT, Literal = ''.'', Line = 1, Column = 4\<rparr>,
      \<lparr>Type = IDENT, Literal = ''c'', Line = 1, Column = 5\<rparr>,
      \<lparr>Type = ASSIGN, Literal = ''='', Line = 1, Column = 7\<rparr>,
      \<lparr>Type = INTEGER, Literal = ''1'', Line = 1, Column = 9\<rparr>,
      \<lparr>Type = EOF, Literal = [], Line = 1, Column = 10\<rparr>]"
  by (simp add: lexer_defs cong: Let_weak_cong prod.case_cong_weak)

text \<open>
  C5 (an assignment to a member chain such as \<^verbatim>\<open>a.b.c = 1\<close> returns normally): the
  code does not do this. The left-hand side is the member \<^verbatim>\<open>c\<close> of the member
  expression \<^verbatim>\<open>a.b\<close>, and the unchecked \<^verbatim>\<open>member.Object.(*Identifier)\<close> panics on it,
  whatever the fuel from 6 on.
\<close>

theorem nested_member_assignment_panics:
  "Parse (6 + n) (NewParser ''a.b.c = 1'') = Inl TypeAssertionPanic"
  unfolding NewParser_def member_chain_tokens
  by (simp add: parser_defs fuel_numeral cong: bind_weak_cong)

lemma next_line_tokens:
  "Tokens (NewLexer ''x = true\<newline>y = 1'') =
     [\<lparr>Type = IDENT, Literal = ''x'', Line = 1, Column = 1\<rparr>,
      \<lparr>Type = ASSIGN, Literal = ''='', Line = 1, Column = 3\<rparr>,
      \<lparr>Type = TRUE, Literal = ''true'', Line = 1, Column = 5\<rparr>,
      \<lparr>Type = IDENT, Literal = ''y'', Line = 2, Column = 1\<rparr>,
      \<lparr>Type = ASSIGN, Literal = ''='', Line = 2, Column = 3\<rparr>,
      \<lparr>Type = INTEGER, Literal = ''1'', Line = 2, Column = 5\<rparr>,
      \<lparr>Type = EOF, Literal = [], Line = 2, Column = 6\<rparr>]"
  by (simp add: lexer_defs cong: Let_weak_cong prod.case_cong_weak)

lemma next_line_parse:
  "Parse (5 + n) (NewParser ''x = true\<newline>y = 1'') =
     Inr (Program
            [Assign (AssignmentStatement [Identifier ''x'' 1] [BooleanLiteral True 2] 2),
             Assign (AssignmentStatement [Identifier ''y'' 2] [NumberLiteral ''1'' True 2] 2)],
          None)"
  unfolding NewParser_def next_line_tokens
  by (simp add: parser_defs fuel_numeral cong: bind_weak_cong)

lemma break_tokens:
  "Tokens (NewLexer ''break\<newline>x = 1'') =
     [\<lparr>Type = BREAK, Literal = ''break'', Line = 1, Column = 1\<rparr>,
      \<lparr>Type = IDENT, Literal = ''x'', Line = 2, Column = 1\<rparr>,
      \<lparr>Type = ASSIGN, Literal = ''='', Line = 2, Column = 3\<rparr>,
      \<lparr>Type = INTEGER, Literal = ''1'', Line = 2, Column = 5\<rparr>,
      \<lparr>Type = EOF, Literal = [], Line = 2, Column = 6\<rparr>]"
  by (simp add: lexer_defs cong: Let_weak_cong prod.case_cong_weak)

lemma break_parse:
  "Parse (5 + n) (NewParser ''break\<newline>x = 1'') =
     Inr (Program
            [BreakStatement 2,
             Assign (AssignmentStatement [Identifier ''x'' 2] [NumberLiteral ''1'' True 2] 2)],
          None)"
  unfolding NewParser_def break_tokens
  by (simp add: parser_defs fuel_numeral cong: bind_weak_cong)

text \<open>
  C7 (every node records the line of its own defining token): the code does not do
  this. For \<^verbatim>\<open>true\<close>, \<^verbatim>\<open>false\<close>, \<^verbatim>\<open>nil\<close>, \<^verbatim>\<open>break\<close> and \<^verbatim>\<open>;\<close> it advances first and
  then reads the line of the current token, which is the next one. The token
  \<^verbatim>\<open>true\<close> of line 1, followed by a token of line 2, gives a literal of line 2, and
  \<^verbatim>\<open>break\<close> of line 1 a statement of line 2.
\<close>

theorem literal_takes_line_of_next_token:
  "Line (Tokens (NewLexer ''x = true\<newline>y = 1'') ! 2) = 1
   \<and> Parse (5 + n) (NewParser ''x = true\<newline>y = 1'') =
       Inr (Program
              [Assign (AssignmentStatement [Identifier ''x'' 1] [BooleanLiteral True 2] 2),
               Assign (AssignmentStatement [Identifier ''y'' 2] [NumberLiteral ''1'' True 2] 2)],
            None)
   \<and> Line (Tokens (NewLexer ''break\<newline>x = 1'') ! 0) = 1
   \<and> Parse (5 + n) (NewParser ''break\<newline>x = 1'') =
       Inr (Program
              [BreakStatement 2,
               Assign (AssignmentStatement [Identifier ''x'' 2] [NumberLiteral ''1'' True 2] 2)],
            None)"
  by (simp add: next_line_parse break_parse) (simp add: next_line_tokens break_tokens)

subsection \<open>The table constructor that the input ends in\<close>

lemma table_tokens_eq: "Tokens (NewLexer ''x = {'') = table_tokens"
  unfolding table_tokens_def by (simp add: lexer_defs cong: Let_weak_cong prod.case_cong_weak)

lemma table_tokens_simps [simp]:
  "length table_tokens = 4"
  "table_tokens ! 0 = \<lparr>Type = IDENT, Literal = ''x'', Line = 1, Column = 1\<rparr>"
  "table_tokens ! Suc 0 = \<lparr>Type = ASSIGN, Literal = ''='', Line = 1, Column = 3\<rparr>"
  "table_tokens ! 2 = \<lparr>Type = LBRACE, Literal = ''{'', Line = 1, Column = 5\<rparr>"
  "table_tokens ! 3 = \<lparr>Type = EOF, Literal = [], Line = 1, Column = 6\<rparr>"
  by (simp_all add: table_tokens_def)

lemma eof_expression:
  assumes "i = 3 \<or> i = 4"
  shows "parseExpression m \<lparr>tokens = table_tokens, tpos = i, errors = es\<rparr> = Inl OutOfFuel
       \<or> (\<exists>e es'. parseExpression m \<lparr>tokens = table_tokens, tpos = i, errors = es\<rparr>
             = Inr (e, \<lparr>tokens = table_tokens, tpos = 4, errors = es'\<rparr>))"
proof (cases m)
  case 0
  then show ?thesis by simp
next
  case m: (Suc k)
  show ?thesis
  proof (cases k)
    case 0
    with m show ?thesis by (simp add: parser_defs cong: bind_weak_cong)
  next
    case k: (Suc j)
    show ?thesis
    proof (cases j)
      case 0
      with m k assms show ?thesis by (auto simp add: parser_defs cong: bind_weak_cong)
    next
      case (Suc j')
      with m k assms show ?thesis by (auto simp add: parser_defs cong: bind_weak_cong)
    qed
  qed
qed

lemma eof_table_loop:
  "i = 3 \<or> i = 4 \<Longrightarrow>
   parseTableLiteral_loop (parseExpression m) n flds \<lparr>tokens = table_tokens, tpos = i, errors = es\<rparr>
     = Inl OutOfFuel"
proof (induction n arbitrary: flds i es)
  case 0
  show ?case by simp
next
  case (Suc n)
  from eof_expression[OF Suc.prems, of m es] show ?case
  proof
    assume "parseExpression m \<lparr>tokens = table_tokens, tpos = i, errors = es\<rparr> = Inl OutOfFuel"
    then show ?thesis by (simp add: parseTableField_def)
  next
    assume "\<exists>e es'. parseExpression m \<lparr>tokens = table_tokens, tpos = i, errors = es\<rparr>
               = Inr (e, \<lparr>tokens = table_tokens, tpos = 4, errors = es'\<rparr>)"
    then obtain e es' where
      "parseExpression m \<lparr>tokens = table_tokens, tpos = i, errors = es\<rparr>
               = Inr (e, \<lparr>tokens = table_tokens, tpos = 4, errors = es'\<rparr>)" by blast
    then show ?thesis
      by (simp add: parseTableField_def check_def currentToken_def expect_def Suc.IH)
  qed
qed

lemma table_value_diverges:
  "parseExpression k \<lparr>tokens = table_tokens, tpos = 2, errors = es\<rparr> = Inl OutOfFuel"
proof (cases k)
  case 0
  then show ?thesis by simp
next
  case k: (Suc j)
  show ?thesis
  proof (cases j)
    case 0
    with k show ?thesis by (simp add: parser_defs cong: bind_weak_cong)
  next
    case (Suc j')
    with k show ?thesis by (simp add: parser_defs eof_table_loop cong: bind_weak_cong)
  qed
qed

lemma table_target:
  "parseExpression k \<lparr>tokens = table_tokens, tpos = 0, errors = []\<rparr> = Inl OutOfFuel
   \<or> parseExpression k \<lparr>tokens = table_tokens, tpos = 0, errors = []\<rparr>
       = Inr (Ident (Identifier ''x'' 1), \<lparr>tokens = table_tokens, tpos = 1, errors = []\<rparr>)"
proof (cases k)
  case 0
  then show ?thesis by simp
next
  case k: (Suc j)
  show ?thesis
  proof (cases j)
    case 0
    with k show ?thesis by (simp add: parser_defs cong: bind_weak_cong)
  next
    case j: (Suc j')
    show ?thesis
    proof (cases j')
      case 0
      with k j show ?thesis by (simp add: parser_defs cong: bind_weak_cong)
    next
      case (Suc j'')
      with k j show ?thesis by (simp add: parser_defs cong: bind_weak_cong)
    qed
  qed
qed

text \<open>
  C2 (\<^verbatim>\<open>Parse\<close> terminates on every input, also on \<^verbatim>\<open>x = {\<close>): the code does not do
  this. At the end of the input \<^verbatim>\<open>advance\<close> stays where it is, so the loop of
  \<^verbatim>\<open>parseTableLiteral\<close> parses an error node, finds no \<^verbatim>\<open>}\<close>, records the missing
  comma and starts again, for ever. Whatever the fuel, the parse of \<^verbatim>\<open>x = {\<close> runs out
  of it.
\<close>

theorem unterminated_table_never_returns:
  "Parse n (NewParser ''x = {'') = Inl OutOfFuel"
proof (cases n)
  case 0
  then show ?thesis by (simp add: Parse_def)
next
  case (Suc k)
  from table_target[of k] show ?thesis
  proof
    assume "parseExpression k \<lparr>tokens = table_tokens, tpos = 0, errors = []\<rparr> = Inl OutOfFuel"
    with Suc show ?thesis
      unfolding NewParser_def table_tokens_eq
      by (simp add: Parse_def parseStatement_def parseAssignmentOrExpression_def check_def
            currentToken_def)
  next
    assume "parseExpression k \<lparr>tokens = table_tokens, tpos = 0, errors = []\<rparr>
       = Inr (Ident (Identifier ''x'' 1), \<lparr>tokens = table_tokens, tpos = 1, errors = []\<rparr>)"
    moreover have "parseExpression k \<lparr>tokens = table_tokens, tpos = Suc (Suc 0), errors = []\<rparr>
       = Inl OutOfFuel"
      using table_value_diverges[of k "[]"] by (simp add: numeral_2_eq_2)
    ultimately show ?thesis
      unfolding NewParser_def table_tokens_eq
      by (simp add: Suc Parse_def parseStatement_def parseAssignmentOrExpression_def check_def
            currentToken_def advance_def parseExpressionList_def)
  qed
qed

end
